theory Spec2Isabelle
  imports Main
begin

section \<open>Data model\<close>

text \<open>
  The repository holds two variants of one Flask application: \<^verbatim>\<open>app.py\<close> (configured
  from environment variables, with a retrying connection helper) and \<^verbatim>\<open>app1.py\<close>
  (hard-coded configuration, no retry). Definitions translated from \<^verbatim>\<open>app.py\<close> keep the
  source's names; those translated from \<^verbatim>\<open>app1.py\<close> carry the suffix \<open>1\<close>.

  The MySQL server, the connector library and the password hasher of werkzeug are
  collaborators outside the repository. Their answers are inputs of the model, collected
  in the record \<open>env\<close>: what each call of \<^verbatim>\<open>mysql.connector.connect\<close> does, which
  connector calls raise \<^verbatim>\<open>mysql.connector.Error\<close>, what \<^verbatim>\<open>is_connected()\<close> answers in the
  \<^verbatim>\<open>finally\<close> blocks, and the two hasher functions.
\<close>

datatype py_val = IntV int | StrV string | TimeV nat

datatype exn =
    MySQLError
  | IntegrityError
  | BadRequestKeyError string
  | KeyError string
  | UnboundLocalError string
  | TypeError

datatype connect_outcome = Connected | NotConnected | ConnectFails

datatype printed =
    ConnectedMsg
  | AttemptFailedMsg int
  | RetryingMsg nat
  | MaxRetriesMsg
  | DatabaseErrorMsg
  | InitializedMsg

datatype event =
    Connect nat
  | Print printed
  | Sleep nat
  | CursorOpen
  | Execute string "py_val list"
  | Commit
  | Fetchone
  | CursorClose
  | ConnectionClose

type_synonym conn = nat

record env =
  mysql_connect :: "nat \<Rightarrow> connect_outcome"
  cursor_raises :: bool
  execute_raises :: bool
  commit_raises :: bool
  fetchone_raises :: bool
  is_connected :: bool
  generate_password_hash :: "string \<Rightarrow> string \<Rightarrow> string"
  check_password_hash :: "string \<Rightarrow> string \<Rightarrow> bool"

section \<open>Connection helper\<close>

text \<open>
  \<^verbatim>\<open>get_db_connection(max_retries=5, retry_delay=5)\<close> of \<^verbatim>\<open>app.py\<close>. The loop variable
  \<open>attempt\<close> runs over \<^verbatim>\<open>range(max_retries)\<close>. A connection object that answers
  \<^verbatim>\<open>is_connected()\<close> with false is dropped and the loop goes on without printing or
  sleeping; a raised \<^verbatim>\<open>Error\<close> is printed, followed by a sleep unless the attempt is the
  last one, where the function returns \<^verbatim>\<open>None\<close>.
\<close>

function connect_loop :: "env \<Rightarrow> int \<Rightarrow> nat \<Rightarrow> nat \<Rightarrow> event list \<Rightarrow> conn option \<times> event list" where
  "connect_loop e max_retries retry_delay attempt evs =
     (if int attempt < max_retries then
        (case mysql_connect e attempt of
           Connected \<Rightarrow> (Some attempt, evs @ [Connect attempt, Print ConnectedMsg])
         | NotConnected \<Rightarrow>
             connect_loop e max_retries retry_delay (Suc attempt) (evs @ [Connect attempt])
         | ConnectFails \<Rightarrow>
             (if int attempt < max_retries - 1
              then connect_loop e max_retries retry_delay (Suc attempt)
                     (evs @ [Connect attempt, Print (AttemptFailedMsg (int attempt + 1)),
                             Print (RetryingMsg retry_delay), Sleep retry_delay])
              else (None, evs @ [Connect attempt, Print (AttemptFailedMsg (int attempt + 1)),
                                 Print MaxRetriesMsg])))
      else (None, evs))"
  by pat_completeness auto
termination
  by (relation "measure (\<lambda>(e, max_retries, retry_delay, attempt, evs). nat (max_retries - int attempt))") auto

declare connect_loop.simps [simp del]

definition get_db_connection_events :: "env \<Rightarrow> int \<Rightarrow> nat \<Rightarrow> conn option \<times> event list" where
  "get_db_connection_events e max_retries retry_delay = connect_loop e max_retries retry_delay 0 []"

text \<open>
  \<^verbatim>\<open>get_db_connection()\<close> of \<^verbatim>\<open>app1.py\<close>: one call of \<^verbatim>\<open>connect\<close>, whose exception is
  not caught and whose result is returned without asking \<^verbatim>\<open>is_connected()\<close>.
\<close>

definition get_db_connection1_events :: "env \<Rightarrow> (exn + conn) \<times> event list" where
  "get_db_connection1_events e =
     (case mysql_connect e 0 of
        ConnectFails \<Rightarrow> (Inl MySQLError, [Connect 0])
      | _ \<Rightarrow> (Inr 0, [Connect 0]))"

fun is_Connect :: "event \<Rightarrow> bool" where
  "is_Connect (Connect k) = True"
| "is_Connect _ = False"

fun is_Sleep :: "event \<Rightarrow> bool" where
  "is_Sleep (Sleep d) = True"
| "is_Sleep _ = False"

definition attempts_made :: "event list \<Rightarrow> nat" where
  "attempts_made evs = length (filter is_Connect evs)"

definition delays_observed :: "event list \<Rightarrow> event list" where
  "delays_observed evs = filter is_Sleep evs"

section \<open>Requests, responses and the state a request runs in\<close>

text \<open>
  A row of the table \<^verbatim>\<open>users\<close>, with the columns of the \<^verbatim>\<open>CREATE TABLE\<close> statement of
  \<^verbatim>\<open>init_db\<close>. A dictionary cursor hands a row out as a Python dict, here the association
  list of the selected columns in their order.
\<close>

record user_row =
  row_id :: int
  row_username :: string
  row_email :: string
  row_password :: string
  row_created_at :: nat

type_synonym row_dict = "(string \<times> py_val) list"

datatype http_method = GET | POST

record request =
  request_method :: http_method
  form :: "string \<rightharpoonup> string"

datatype template_data = NoData | Username py_val | User "row_dict option"

datatype response = Render string template_data | Redirect string | Propagated exn

text \<open>
  How a \<^verbatim>\<open>try\<close> body ends: by running to its end, by \<^verbatim>\<open>return\<close>, or by an exception.
\<close>

datatype completion = Normal | Returns response | Raises exn

record world =
  users :: "user_row list"
  auto_increment :: int
  now :: nat
  session :: "string \<rightharpoonup> py_val"
  flashes :: "(string \<times> string) list"
  events :: "event list"

definition flash :: "string \<Rightarrow> string \<Rightarrow> world \<Rightarrow> world" where
  "flash message category w = w\<lparr>flashes := flashes w @ [(message, category)]\<rparr>"

definition emit :: "event list \<Rightarrow> world \<Rightarrow> world" where
  "emit evs w = w\<lparr>events := events w @ evs\<rparr>"

definition set_session :: "string \<Rightarrow> py_val \<Rightarrow> world \<Rightarrow> world" where
  "set_session k v w = w\<lparr>session := (session w)(k \<mapsto> v)\<rparr>"

definition session_pop :: "string \<Rightarrow> world \<Rightarrow> world" where
  "session_pop k w = w\<lparr>session := (session w)(k := None)\<rparr>"

definition getitem :: "row_dict \<Rightarrow> string \<Rightarrow> exn + py_val" where
  "getitem d k = (case map_of d k of None \<Rightarrow> Inl (KeyError k) | Some v \<Rightarrow> Inr v)"

text \<open>Python's \<^verbatim>\<open>not x\<close> for a form value: the field is missing or the empty string.\<close>

definition falsy :: "string option \<Rightarrow> bool" where
  "falsy x = (case x of None \<Rightarrow> True | Some s \<Rightarrow> s = [])"

text \<open>\<^verbatim>\<open>IntegrityError\<close> is a subclass of \<^verbatim>\<open>mysql.connector.Error\<close>.\<close>

fun is_mysql_error :: "exn \<Rightarrow> bool" where
  "is_mysql_error MySQLError = True"
| "is_mysql_error IntegrityError = True"
| "is_mysql_error _ = False"

definition get_db_connection :: "env \<Rightarrow> int \<Rightarrow> nat \<Rightarrow> world \<Rightarrow> conn option \<times> world" where
  "get_db_connection e max_retries retry_delay w =
     (case get_db_connection_events e max_retries retry_delay of
        (connection, evs) \<Rightarrow> (connection, emit evs w))"

definition get_db_connection1 :: "env \<Rightarrow> world \<Rightarrow> (exn + conn) \<times> world" where
  "get_db_connection1 e w =
     (case get_db_connection1_events e of (connection, evs) \<Rightarrow> (connection, emit evs w))"

section \<open>The statements and what the store answers\<close>

definition insert_user_sql :: string where
  "insert_user_sql = ''INSERT INTO users (username, email, password) VALUES (%s, %s, %s)''"

definition select_by_email_sql :: string where
  "select_by_email_sql = ''SELECT * FROM users WHERE email = %s''"

definition select_by_username_sql :: string where
  "select_by_username_sql = ''SELECT * FROM users WHERE username = %s''"

definition select_profile_sql :: string where
  "select_profile_sql = ''SELECT id, username, email, created_at FROM users WHERE id = %s''"

definition select_star :: "user_row \<Rightarrow> row_dict" where
  "select_star u =
     [(''id'', IntV (row_id u)), (''username'', StrV (row_username u)),
      (''email'', StrV (row_email u)), (''password'', StrV (row_password u)),
      (''created_at'', TimeV (row_created_at u))]"

definition select_profile :: "user_row \<Rightarrow> row_dict" where
  "select_profile u =
     [(''id'', IntV (row_id u)), (''username'', StrV (row_username u)),
      (''email'', StrV (row_email u)), (''created_at'', TimeV (row_created_at u))]"

datatype executed = Selected "row_dict list" | Inserted user_row

text \<open>
  What the server does with a statement of the handlers, read off the statement text and
  the schema of \<^verbatim>\<open>init_db\<close>: both \<^verbatim>\<open>username\<close> and \<^verbatim>\<open>email\<close> are \<^verbatim>\<open>UNIQUE\<close>, \<^verbatim>\<open>id\<close> is
  \<^verbatim>\<open>AUTO_INCREMENT\<close>, \<^verbatim>\<open>created_at\<close> defaults to the server's clock. Strings are compared
  exactly. An insert is staged until \<^verbatim>\<open>commit\<close>. Any other statement text or parameter
  shape is answered with an error; the handlers never send one.
\<close>

definition store_execute :: "world \<Rightarrow> string \<Rightarrow> py_val list \<Rightarrow> exn + executed" where
  "store_execute w query params =
     (if query = insert_user_sql then
        (case params of
           [StrV username, StrV email, StrV pwhash] \<Rightarrow>
             if list_ex (\<lambda>u. row_username u = username \<or> row_email u = email) (users w)
             then Inl IntegrityError
             else Inr (Inserted \<lparr>row_id = auto_increment w, row_username = username,
                                  row_email = email, row_password = pwhash,
                                  row_created_at = now w\<rparr>)
         | _ \<Rightarrow> Inl MySQLError)
      else if query = select_by_email_sql then
        (case params of
           [StrV email] \<Rightarrow>
             Inr (Selected (map select_star (filter (\<lambda>u. row_email u = email) (users w))))
         | _ \<Rightarrow> Inl MySQLError)
      else if query = select_by_username_sql then
        (case params of
           [StrV username] \<Rightarrow>
             Inr (Selected (map select_star (filter (\<lambda>u. row_username u = username) (users w))))
         | _ \<Rightarrow> Inl MySQLError)
      else if query = select_profile_sql then
        (case params of
           [IntV i] \<Rightarrow>
             Inr (Selected (map select_profile (filter (\<lambda>u. row_id u = i) (users w))))
         | _ \<Rightarrow> Inl MySQLError)
      else Inl MySQLError)"

definition store_commit :: "executed \<Rightarrow> world \<Rightarrow> world" where
  "store_commit x w =
     (case x of
        Inserted u \<Rightarrow> w\<lparr>users := users w @ [u], auto_increment := auto_increment w + 1\<rparr>
      | Selected rows \<Rightarrow> w)"

definition fetchone :: "executed \<Rightarrow> row_dict option" where
  "fetchone x =
     (case x of
        Selected rows \<Rightarrow> (case rows of [] \<Rightarrow> None | r # rest \<Rightarrow> Some r)
      | Inserted u \<Rightarrow> None)"

section \<open>The handlers of \<^verbatim>\<open>app.py\<close>\<close>

text \<open>
  Each handler with a \<^verbatim>\<open>try\<close> statement is split the way the statement is: the body
  (\<open>_try\<close>), the \<^verbatim>\<open>except\<close> clauses (\<open>_except\<close>) and the \<^verbatim>\<open>finally\<close> clause. The body also
  reports whether the local variable \<^verbatim>\<open>cursor\<close> was bound when it ended, which the
  \<^verbatim>\<open>finally\<close> clause depends on: \<^verbatim>\<open>cursor.close()\<close> with \<^verbatim>\<open>cursor\<close> unbound raises
  \<^verbatim>\<open>UnboundLocalError\<close>, which replaces whatever the \<^verbatim>\<open>try\<close> statement was about to do.
\<close>

definition finally_close :: "env \<Rightarrow> completion \<times> bool \<times> world \<Rightarrow> completion \<times> world" where
  "finally_close e r =
     (case r of (c, cursor_bound, w) \<Rightarrow>
        if is_connected e then
          (if cursor_bound then (c, emit [CursorClose, ConnectionClose] w)
           else (Raises (UnboundLocalError ''cursor''), w))
        else (c, w))"

definition index :: "world \<Rightarrow> response \<times> world" where
  "index w =
     (case session w ''user_id'' of
        Some i \<Rightarrow>
          (case session w ''username'' of
             Some u \<Rightarrow> (Render ''home.html'' (Username u), w)
           | None \<Rightarrow> (Propagated (KeyError ''username''), w))
      | None \<Rightarrow> (Redirect ''login'', w))"

definition register_try :: "env \<Rightarrow> string \<Rightarrow> string \<Rightarrow> string \<Rightarrow> world \<Rightarrow> completion \<times> bool \<times> world" where
  "register_try e username email hashed_password w =
     (if cursor_raises e then (Raises MySQLError, False, w)
      else
        let w1 = emit [CursorOpen] w;
            query = insert_user_sql;
            vals = [StrV username, StrV email, StrV hashed_password];
            w2 = emit [Execute query vals] w1
        in if execute_raises e then (Raises MySQLError, True, w2)
           else
             (case store_execute w2 query vals of
                Inl ex \<Rightarrow> (Raises ex, True, w2)
              | Inr x \<Rightarrow>
                  let w3 = emit [Commit] w2
                  in if commit_raises e then (Raises MySQLError, True, w3)
                     else (Returns (Redirect ''login''), True,
                           flash ''Registration successful! Please login.'' ''success''
                             (store_commit x w3))))"

definition register_except :: "completion \<times> bool \<times> world \<Rightarrow> completion \<times> bool \<times> world" where
  "register_except r =
     (case r of (c, cursor_bound, w) \<Rightarrow>
        (case c of
           Raises ex \<Rightarrow>
             if ex = IntegrityError
             then (Normal, cursor_bound, flash ''Username or email already exists!'' ''danger'' w)
             else if is_mysql_error ex
             then (Normal, cursor_bound,
                   flash ''An error occurred. Please try again.'' ''danger''
                     (emit [Print DatabaseErrorMsg] w))
             else (c, cursor_bound, w)
         | _ \<Rightarrow> (c, cursor_bound, w)))"

definition register :: "env \<Rightarrow> request \<Rightarrow> world \<Rightarrow> response \<times> world" where
  "register e rq w =
     (if request_method rq = POST then
        (case form rq ''username'' of
           None \<Rightarrow> (Propagated (BadRequestKeyError ''username''), w)
         | Some username \<Rightarrow>
        (case form rq ''email'' of
           None \<Rightarrow> (Propagated (BadRequestKeyError ''email''), w)
         | Some email \<Rightarrow>
        (case form rq ''password'' of
           None \<Rightarrow> (Propagated (BadRequestKeyError ''password''), w)
         | Some password \<Rightarrow>
             let hashed_password = generate_password_hash e password ''pbkdf2:sha256''
             in (case get_db_connection e 5 5 w of
                   (None, w1) \<Rightarrow>
                     (Render ''register.html'' NoData,
                      flash ''Database connection failed. Please try again later.'' ''danger'' w1)
                 | (Some connection, w1) \<Rightarrow>
                     (case finally_close e
                             (register_except (register_try e username email hashed_password w1)) of
                        (Returns r, w2) \<Rightarrow> (r, w2)
                      | (Raises ex, w2) \<Rightarrow> (Propagated ex, w2)
                      | (Normal, w2) \<Rightarrow> (Render ''register.html'' NoData, w2))))))
      else (Render ''register.html'' NoData, w))"

text \<open>
  The test \<^verbatim>\<open>if user and check_password_hash(user['password'], password)\<close> of \<^verbatim>\<open>login\<close> and
  the branch it selects. An empty dict is false in Python. The three session assignments
  run in the source's order, each reading a key of the row.
\<close>

definition login_check :: "env \<Rightarrow> row_dict option \<Rightarrow> string \<Rightarrow> world \<Rightarrow> completion \<times> bool \<times> world" where
  "login_check e user password w =
     (let denied = (Normal, True, flash ''Invalid email or password!'' ''danger'' w)
      in case user of
           None \<Rightarrow> denied
         | Some row \<Rightarrow>
             if row = [] then denied
             else
               (case getitem row ''password'' of
                  Inl ex \<Rightarrow> (Raises ex, True, w)
                | Inr (StrV pwhash) \<Rightarrow>
                    if check_password_hash e pwhash password then
                      (case getitem row ''id'' of
                         Inl ex \<Rightarrow> (Raises ex, True, w)
                       | Inr i \<Rightarrow>
                           let w1 = set_session ''user_id'' i w
                           in (case getitem row ''username'' of
                                 Inl ex \<Rightarrow> (Raises ex, True, w1)
                               | Inr u \<Rightarrow>
                                   let w2 = set_session ''username'' u w1
                                   in (case getitem row ''email'' of
                                         Inl ex \<Rightarrow> (Raises ex, True, w2)
                                       | Inr m \<Rightarrow>
                                           let w3 = set_session ''email'' m w2
                                           in (Returns (Redirect ''index''), True,
                                               flash ''Login successful!'' ''success'' w3))))
                    else denied
                | Inr other \<Rightarrow> (Raises TypeError, True, w)))"

definition login_try :: "env \<Rightarrow> string \<Rightarrow> string \<Rightarrow> world \<Rightarrow> completion \<times> bool \<times> world" where
  "login_try e email password w =
     (if cursor_raises e then (Raises MySQLError, False, w)
      else
        let w1 = emit [CursorOpen] w;
            query = select_by_email_sql;
            w2 = emit [Execute query [StrV email]] w1
        in if execute_raises e then (Raises MySQLError, True, w2)
           else
             (case store_execute w2 query [StrV email] of
                Inl ex \<Rightarrow> (Raises ex, True, w2)
              | Inr x \<Rightarrow>
                  let w3 = emit [Fetchone] w2
                  in if fetchone_raises e then (Raises MySQLError, True, w3)
                     else login_check e (fetchone x) password w3))"

definition login_except :: "completion \<times> bool \<times> world \<Rightarrow> completion \<times> bool \<times> world" where
  "login_except r =
     (case r of (c, cursor_bound, w) \<Rightarrow>
        (case c of
           Raises ex \<Rightarrow>
             if is_mysql_error ex
             then (Normal, cursor_bound,
                   flash ''An error occurred. Please try again.'' ''danger''
                     (emit [Print DatabaseErrorMsg] w))
             else (c, cursor_bound, w)
         | _ \<Rightarrow> (c, cursor_bound, w)))"

definition login :: "env \<Rightarrow> request \<Rightarrow> world \<Rightarrow> response \<times> world" where
  "login e rq w =
     (if request_method rq = POST then
        (let email = form rq ''email'';
             password = form rq ''password''
         in if falsy email \<or> falsy password then
              (Render ''login.html'' NoData, flash ''Email and password are required!'' ''danger'' w)
            else
              (case get_db_connection e 5 5 w of
                 (None, w1) \<Rightarrow>
                   (Render ''login.html'' NoData,
                    flash ''Database connection failed. Please try again later.'' ''danger'' w1)
               | (Some connection, w1) \<Rightarrow>
                   (case finally_close e (login_except (login_try e (the email) (the password) w1)) of
                      (Returns r, w2) \<Rightarrow> (r, w2)
                    | (Raises ex, w2) \<Rightarrow> (Propagated ex, w2)
                    | (Normal, w2) \<Rightarrow> (Render ''login.html'' NoData, w2))))
      else (Render ''login.html'' NoData, w))"

definition logout :: "world \<Rightarrow> response \<times> world" where
  "logout w =
     (Redirect ''login'',
      flash ''You have been logged out.'' ''info''
        (session_pop ''email'' (session_pop ''username'' (session_pop ''user_id'' w))))"

definition dashboard_try :: "env \<Rightarrow> world \<Rightarrow> completion \<times> bool \<times> world" where
  "dashboard_try e w =
     (if cursor_raises e then (Raises MySQLError, False, w)
      else
        let w1 = emit [CursorOpen] w;
            query = select_profile_sql
        in (case session w1 ''user_id'' of
              None \<Rightarrow> (Raises (KeyError ''user_id''), True, w1)
            | Some user_id \<Rightarrow>
                let w2 = emit [Execute query [user_id]] w1
                in if execute_raises e then (Raises MySQLError, True, w2)
                   else
                     (case store_execute w2 query [user_id] of
                        Inl ex \<Rightarrow> (Raises ex, True, w2)
                      | Inr x \<Rightarrow>
                          let w3 = emit [Fetchone] w2
                          in if fetchone_raises e then (Raises MySQLError, True, w3)
                             else (Returns (Render ''dashboard.html'' (User (fetchone x))),
                                   True, w3))))"

definition dashboard_except :: "completion \<times> bool \<times> world \<Rightarrow> completion \<times> bool \<times> world" where
  "dashboard_except r =
     (case r of (c, cursor_bound, w) \<Rightarrow>
        (case c of
           Raises ex \<Rightarrow>
             if is_mysql_error ex
             then (Returns (Redirect ''index''), cursor_bound,
                   flash ''An error occurred. Please try again.'' ''danger''
                     (emit [Print DatabaseErrorMsg] w))
             else (c, cursor_bound, w)
         | _ \<Rightarrow> (c, cursor_bound, w)))"

text \<open>
  \<^verbatim>\<open>dashboard\<close> has no statement after its \<^verbatim>\<open>try\<close>; a body that ran to its end would
  make the view return \<^verbatim>\<open>None\<close>, which Flask answers with a \<^verbatim>\<open>TypeError\<close>.
\<close>

definition dashboard :: "env \<Rightarrow> world \<Rightarrow> response \<times> world" where
  "dashboard e w =
     (if session w ''user_id'' = None then
        (Redirect ''login'', flash ''Please login to access dashboard.'' ''warning'' w)
      else
        (case get_db_connection e 5 5 w of
           (None, w1) \<Rightarrow>
             (Redirect ''index'', flash ''Database connection failed.'' ''danger'' w1)
         | (Some connection, w1) \<Rightarrow>
             (case finally_close e (dashboard_except (dashboard_try e w1)) of
                (Returns r, w2) \<Rightarrow> (r, w2)
              | (Raises ex, w2) \<Rightarrow> (Propagated ex, w2)
              | (Normal, w2) \<Rightarrow> (Propagated TypeError, w2))))"

section \<open>The handlers of \<^verbatim>\<open>app1.py\<close>\<close>

text \<open>
  In \<^verbatim>\<open>app1.py\<close> only \<^verbatim>\<open>register\<close> has a \<^verbatim>\<open>try\<close> statement; it catches
  \<^verbatim>\<open>IntegrityError\<close> alone and closes cursor and connection unconditionally in
  \<^verbatim>\<open>finally\<close>. The connection and the cursor are obtained before the \<^verbatim>\<open>try\<close>. \<^verbatim>\<open>login\<close>
  and \<^verbatim>\<open>dashboard\<close> call \<^verbatim>\<open>close()\<close> in line after \<^verbatim>\<open>fetchone()\<close>.
\<close>

definition finally_close1 :: "completion \<times> world \<Rightarrow> completion \<times> world" where
  "finally_close1 r = (case r of (c, w) \<Rightarrow> (c, emit [CursorClose, ConnectionClose] w))"

definition index1 :: "world \<Rightarrow> response \<times> world" where
  "index1 w =
     (case session w ''user_id'' of
        Some i \<Rightarrow>
          (case session w ''username'' of
             Some u \<Rightarrow> (Render ''home.html'' (Username u), w)
           | None \<Rightarrow> (Propagated (KeyError ''username''), w))
      | None \<Rightarrow> (Redirect ''login'', w))"

definition register1_try :: "env \<Rightarrow> string \<Rightarrow> string \<Rightarrow> string \<Rightarrow> world \<Rightarrow> completion \<times> world" where
  "register1_try e username email hashed_password w =
     (let query = insert_user_sql;
          vals = [StrV username, StrV email, StrV hashed_password];
          w1 = emit [Execute query vals] w
      in if execute_raises e then (Raises MySQLError, w1)
         else
           (case store_execute w1 query vals of
              Inl ex \<Rightarrow> (Raises ex, w1)
            | Inr x \<Rightarrow>
                let w2 = emit [Commit] w1
                in if commit_raises e then (Raises MySQLError, w2)
                   else (Returns (Redirect ''login''),
                         flash ''Registration successful! Please login.'' ''success''
                           (store_commit x w2))))"

definition register1_except :: "completion \<times> world \<Rightarrow> completion \<times> world" where
  "register1_except r =
     (case r of (c, w) \<Rightarrow>
        (case c of
           Raises ex \<Rightarrow>
             if ex = IntegrityError
             then (Normal, flash ''Username or email already exists!'' ''danger'' w)
             else (c, w)
         | _ \<Rightarrow> (c, w)))"

definition register1 :: "env \<Rightarrow> request \<Rightarrow> world \<Rightarrow> response \<times> world" where
  "register1 e rq w =
     (if request_method rq = POST then
        (case form rq ''username'' of
           None \<Rightarrow> (Propagated (BadRequestKeyError ''username''), w)
         | Some username \<Rightarrow>
        (case form rq ''email'' of
           None \<Rightarrow> (Propagated (BadRequestKeyError ''email''), w)
         | Some email \<Rightarrow>
        (case form rq ''password'' of
           None \<Rightarrow> (Propagated (BadRequestKeyError ''password''), w)
         | Some password \<Rightarrow>
             let hashed_password = generate_password_hash e password ''pbkdf2:sha256''
             in (case get_db_connection1 e w of
                   (Inl ex, w1) \<Rightarrow> (Propagated ex, w1)
                 | (Inr connection, w1) \<Rightarrow>
                     if cursor_raises e then (Propagated MySQLError, w1)
                     else
                       (case finally_close1
                               (register1_except
                                  (register1_try e username email hashed_password
                                     (emit [CursorOpen] w1))) of
                          (Returns r, w2) \<Rightarrow> (r, w2)
                        | (Raises ex, w2) \<Rightarrow> (Propagated ex, w2)
                        | (Normal, w2) \<Rightarrow> (Render ''register.html'' NoData, w2))))))
      else (Render ''register.html'' NoData, w))"

definition login1_check :: "env \<Rightarrow> row_dict option \<Rightarrow> string \<Rightarrow> world \<Rightarrow> response \<times> world" where
  "login1_check e user password w =
     (let denied = (Render ''login.html'' NoData,
                    flash ''Invalid username or password!'' ''danger'' w)
      in case user of
           None \<Rightarrow> denied
         | Some row \<Rightarrow>
             if row = [] then denied
             else
               (case getitem row ''password'' of
                  Inl ex \<Rightarrow> (Propagated ex, w)
                | Inr (StrV pwhash) \<Rightarrow>
                    if check_password_hash e pwhash password then
                      (case getitem row ''id'' of
                         Inl ex \<Rightarrow> (Propagated ex, w)
                       | Inr i \<Rightarrow>
                           let w1 = set_session ''user_id'' i w
                           in (case getitem row ''username'' of
                                 Inl ex \<Rightarrow> (Propagated ex, w1)
                               | Inr u \<Rightarrow>
                                   let w2 = set_session ''username'' u w1
                                   in (Redirect ''index'',
                                       flash ''Login successful!'' ''success'' w2)))
                    else denied
                | Inr other \<Rightarrow> (Propagated TypeError, w)))"

definition login1 :: "env \<Rightarrow> request \<Rightarrow> world \<Rightarrow> response \<times> world" where
  "login1 e rq w =
     (if request_method rq = POST then
        (case form rq ''username'' of
           None \<Rightarrow> (Propagated (BadRequestKeyError ''username''), w)
         | Some username \<Rightarrow>
        (case form rq ''password'' of
           None \<Rightarrow> (Propagated (BadRequestKeyError ''password''), w)
         | Some password \<Rightarrow>
        (case get_db_connection1 e w of
           (Inl ex, w1) \<Rightarrow> (Propagated ex, w1)
         | (Inr connection, w1) \<Rightarrow>
             if cursor_raises e then (Propagated MySQLError, w1)
             else
               let w2 = emit [CursorOpen] w1;
                   query = select_by_username_sql;
                   w3 = emit [Execute query [StrV username]] w2
               in if execute_raises e then (Propagated MySQLError, w3)
                  else
                    (case store_execute w3 query [StrV username] of
                       Inl ex \<Rightarrow> (Propagated ex, w3)
                     | Inr x \<Rightarrow>
                         let w4 = emit [Fetchone] w3
                         in if fetchone_raises e then (Propagated MySQLError, w4)
                            else login1_check e (fetchone x) password
                                   (emit [CursorClose, ConnectionClose] w4)))))
      else (Render ''login.html'' NoData, w))"

definition logout1 :: "world \<Rightarrow> response \<times> world" where
  "logout1 w =
     (Redirect ''login'',
      flash ''You have been logged out.'' ''info''
        (session_pop ''username'' (session_pop ''user_id'' w)))"

definition dashboard1 :: "env \<Rightarrow> world \<Rightarrow> response \<times> world" where
  "dashboard1 e w =
     (if session w ''user_id'' = None then
        (Redirect ''login'', flash ''Please login to access dashboard.'' ''warning'' w)
      else
        (case get_db_connection1 e w of
           (Inl ex, w1) \<Rightarrow> (Propagated ex, w1)
         | (Inr connection, w1) \<Rightarrow>
             if cursor_raises e then (Propagated MySQLError, w1)
             else
               let w2 = emit [CursorOpen] w1;
                   query = select_profile_sql
               in (case session w2 ''user_id'' of
                     None \<Rightarrow> (Propagated (KeyError ''user_id''), w2)
                   | Some user_id \<Rightarrow>
                       let w3 = emit [Execute query [user_id]] w2
                       in if execute_raises e then (Propagated MySQLError, w3)
                          else
                            (case store_execute w3 query [user_id] of
                               Inl ex \<Rightarrow> (Propagated ex, w3)
                             | Inr x \<Rightarrow>
                                 let w4 = emit [Fetchone] w3
                                 in if fetchone_raises e then (Propagated MySQLError, w4)
                                    else (Render ''dashboard.html'' (User (fetchone x)),
                                          emit [CursorClose, ConnectionClose] w4)))))"

text \<open>
  \<^verbatim>\<open>init_db\<close> of \<^verbatim>\<open>app1.py\<close>, run once at start-up with the module's \<^verbatim>\<open>db_config\<close>. Its
  first two statements are f-strings that splice \<^verbatim>\<open>db_config['database']\<close> into the
  statement text; none of its statements takes parameters. No exception is caught.
\<close>

record db_config_t =
  cfg_host :: string
  cfg_user :: string
  cfg_password :: string
  cfg_database :: string

definition db_config :: db_config_t where
  "db_config = \<lparr>cfg_host = ''localhost'', cfg_user = ''root'', cfg_password = ''root'',
                cfg_database = ''flask_auth_db''\<rparr>"

definition create_table_sql :: string where
  "create_table_sql =
     ''\<newline>        CREATE TABLE IF NOT EXISTS users (\<newline>            id INT AUTO_INCREMENT PRIMARY KEY,\<newline>            username VARCHAR(80) UNIQUE NOT NULL,\<newline>            email VARCHAR(120) UNIQUE NOT NULL,\<newline>            password VARCHAR(255) NOT NULL,\<newline>            created_at TIMESTAMP DEFAULT CURRENT_TIMESTAMP\<newline>        )\<newline>    ''"

definition init_db :: "env \<Rightarrow> db_config_t \<Rightarrow> exn option \<times> event list" where
  "init_db e cfg =
     (case mysql_connect e 0 of
        ConnectFails \<Rightarrow> (Some MySQLError, [Connect 0])
      | _ \<Rightarrow>
          if cursor_raises e then (Some MySQLError, [Connect 0])
          else
            let evs = [Connect 0, CursorOpen,
                       Execute (''CREATE DATABASE IF NOT EXISTS '' @ cfg_database cfg) []]
            in if execute_raises e then (Some MySQLError, evs)
               else
                 let evs1 = evs @ [Execute (''USE '' @ cfg_database cfg) [],
                                   Execute create_table_sql [], Commit]
                 in if commit_raises e then (Some MySQLError, evs1)
                    else (None, evs1 @ [CursorClose, ConnectionClose, Print InitializedMsg]))"

section \<open>Observations on a run\<close>

text \<open>The statement texts sent to the server, in order.\<close>

fun statements :: "event list \<Rightarrow> string list" where
  "statements [] = []"
| "statements (Execute query params # evs) = query # statements evs"
| "statements (ev # evs) = statements evs"

text \<open>Everything a client or a later request can see of a run: all but the event trace.\<close>

definition observable :: "response \<times> world \<Rightarrow> response \<times> user_row list \<times> int \<times> (string \<rightharpoonup> py_val) \<times> (string \<times> string) list" where
  "observable r = (case r of (resp, w) \<Rightarrow> (resp, users w, auto_increment w, session w, flashes w))"

definition find_by_email :: "string \<Rightarrow> world \<Rightarrow> user_row option" where
  "find_by_email email w = List.find (\<lambda>u. row_email u = email) (users w)"

definition find_by_username :: "string \<Rightarrow> world \<Rightarrow> user_row option" where
  "find_by_username username w = List.find (\<lambda>u. row_username u = username) (users w)"

definition find_by_id :: "int \<Rightarrow> world \<Rightarrow> user_row option" where
  "find_by_id i w = List.find (\<lambda>u. row_id u = i) (users w)"

text \<open>
  The store is reachable and answers a lookup: a connection is obtained and neither
  \<^verbatim>\<open>cursor()\<close>, \<^verbatim>\<open>execute()\<close> nor \<^verbatim>\<open>fetchone()\<close> raises. For \<^verbatim>\<open>app.py\<close> the connection
  comes out of the retry loop, for \<^verbatim>\<open>app1.py\<close> out of the single call.
\<close>

definition lookup_ok :: "env \<Rightarrow> bool" where
  "lookup_ok e =
     (fst (get_db_connection_events e 5 5) \<noteq> None \<and> \<not> cursor_raises e \<and>
      \<not> execute_raises e \<and> \<not> fetchone_raises e)"

definition lookup_ok1 :: "env \<Rightarrow> bool" where
  "lookup_ok1 e =
     (mysql_connect e 0 \<noteq> ConnectFails \<and> \<not> cursor_raises e \<and>
      \<not> execute_raises e \<and> \<not> fetchone_raises e)"

text \<open>A user was found and the hasher accepts the submitted password for its verifier.\<close>

definition verifies :: "env \<Rightarrow> user_row option \<Rightarrow> string \<Rightarrow> bool" where
  "verifies e found password =
     (case found of None \<Rightarrow> False | Some u \<Rightarrow> check_password_hash e (row_password u) password)"

text \<open>The messages flashed during a request that started in \<open>w\<close> and ended in \<open>w'\<close>.\<close>

definition new_flashes :: "world \<Rightarrow> world \<Rightarrow> (string \<times> string) list" where
  "new_flashes w w' = drop (length (flashes w)) (flashes w')"

text \<open>
  A login form as each variant reads it: \<^verbatim>\<open>app.py\<close> takes the fields \<^verbatim>\<open>email\<close> and
  \<^verbatim>\<open>password\<close> and goes on to the store only when both are non-empty; \<^verbatim>\<open>app1.py\<close> takes
  \<^verbatim>\<open>username\<close> and \<^verbatim>\<open>password\<close> as they come.
\<close>

definition email_login_submission :: "request \<Rightarrow> string \<Rightarrow> string \<Rightarrow> bool" where
  "email_login_submission rq email password =
     (request_method rq = POST \<and> form rq ''email'' = Some email \<and> email \<noteq> [] \<and>
      form rq ''password'' = Some password \<and> password \<noteq> [])"

definition username_login_submission :: "request \<Rightarrow> string \<Rightarrow> string \<Rightarrow> bool" where
  "username_login_submission rq username password =
     (request_method rq = POST \<and> form rq ''username'' = Some username \<and>
      form rq ''password'' = Some password)"

text \<open>
  A registration form with its three fields, and the faults of the insert other than a
  uniqueness violation: \<^verbatim>\<open>execute()\<close> raises, or the row is new and \<^verbatim>\<open>commit()\<close> raises.
\<close>

definition register_submission :: "request \<Rightarrow> string \<Rightarrow> string \<Rightarrow> string \<Rightarrow> bool" where
  "register_submission rq username email password =
     (request_method rq = POST \<and> form rq ''username'' = Some username \<and>
      form rq ''email'' = Some email \<and> form rq ''password'' = Some password)"

definition duplicate :: "string \<Rightarrow> string \<Rightarrow> world \<Rightarrow> bool" where
  "duplicate username email w =
     list_ex (\<lambda>u. row_username u = username \<or> row_email u = email) (users w)"

definition store_error :: "env \<Rightarrow> string \<Rightarrow> string \<Rightarrow> world \<Rightarrow> bool" where
  "store_error e username email w =
     (\<not> cursor_raises e \<and> (execute_raises e \<or> (commit_raises e \<and> \<not> duplicate username email w)))"

text \<open>The events added during a request that started in \<open>w\<close> and ended in \<open>w'\<close>.\<close>

definition new_events :: "world \<Rightarrow> world \<Rightarrow> event list" where
  "new_events w w' = drop (length (events w)) (events w')"



section \<open>Concrete inputs\<close>

text \<open>
  Inputs at which the theorems below are exercised. The two hasher functions are stand-ins
  that keep the plaintext readable; no theorem about all inputs depends on them.
\<close>

definition hash_stub :: "string \<Rightarrow> string \<Rightarrow> string" where
  "hash_stub password meth = meth @ ''$'' @ password"

definition check_stub :: "string \<Rightarrow> string \<Rightarrow> bool" where
  "check_stub pwhash password = (pwhash = ''pbkdf2:sha256$'' @ password)"

definition env_ok :: env where
  "env_ok = \<lparr>mysql_connect = (\<lambda>k. Connected), cursor_raises = False, execute_raises = False,
             commit_raises = False, fetchone_raises = False, is_connected = True,
             generate_password_hash = hash_stub, check_password_hash = check_stub\<rparr>"

definition env_down :: env where
  "env_down = env_ok\<lparr>mysql_connect := (\<lambda>k. ConnectFails)\<rparr>"

definition env_third :: env where
  "env_third = env_ok\<lparr>mysql_connect := (\<lambda>k. if k < 2 then ConnectFails else Connected)\<rparr>"

definition env_execute_fault :: env where
  "env_execute_fault = env_ok\<lparr>execute_raises := True\<rparr>"

definition alice :: user_row where
  "alice = \<lparr>row_id = 1, row_username = ''alice'', row_email = ''alice@x.com'',
            row_password = ''pbkdf2:sha256$pw1'', row_created_at = 0\<rparr>"

definition world_empty :: world where
  "world_empty = \<lparr>users = [], auto_increment = 1, now = 0, session = Map.empty,
                  flashes = [], events = []\<rparr>"

definition world_alice :: world where
  "world_alice = world_empty\<lparr>users := [alice], auto_increment := 2\<rparr>"

definition world_alice_in :: world where
  "world_alice_in =
     world_alice\<lparr>session := [''user_id'' \<mapsto> IntV 1, ''username'' \<mapsto> StrV ''alice'',
                              ''email'' \<mapsto> StrV ''alice@x.com'']\<rparr>"

definition world_orphan :: world where
  "world_orphan = world_empty\<lparr>session := [''user_id'' \<mapsto> IntV 1, ''username'' \<mapsto> StrV ''alice'']\<rparr>"

definition post :: "(string \<times> string) list \<Rightarrow> request" where
  "post items = \<lparr>request_method = POST, form = map_of items\<rparr>"

text \<open>A user who registered with the empty password, which \<^verbatim>\<open>register\<close> accepts.\<close>

definition eve :: user_row where
  "eve = \<lparr>row_id = 2, row_username = ''eve'', row_email = ''eve@x.com'',
          row_password = ''pbkdf2:sha256$'', row_created_at = 0\<rparr>"

definition world_eve :: world where
  "world_eve = world_empty\<lparr>users := [alice, eve], auto_increment := 3\<rparr>"

section \<open>Basic facts about the model\<close>

lemma sql_distinct [simp]:
  "insert_user_sql \<noteq> select_by_email_sql" "insert_user_sql \<noteq> select_by_username_sql"
  "insert_user_sql \<noteq> select_profile_sql" "select_by_email_sql \<noteq> insert_user_sql"
  "select_by_email_sql \<noteq> select_by_username_sql" "select_by_email_sql \<noteq> select_profile_sql"
  "select_by_username_sql \<noteq> insert_user_sql" "select_by_username_sql \<noteq> select_by_email_sql"
  "select_by_username_sql \<noteq> select_profile_sql" "select_profile_sql \<noteq> insert_user_sql"
  "select_profile_sql \<noteq> select_by_email_sql" "select_profile_sql \<noteq> select_by_username_sql"
  by (simp_all add: insert_user_sql_def select_by_email_sql_def select_by_username_sql_def
      select_profile_sql_def)

lemma fetchone_filter:
  "fetchone (Selected (map f (filter P xs))) = map_option f (List.find P xs)"
  by (induction xs) (simp_all add: fetchone_def)

lemma store_execute_insert:
  "store_execute w insert_user_sql [StrV a, StrV b, StrV c] =
     (if list_ex (\<lambda>u. row_username u = a \<or> row_email u = b) (users w) then Inl IntegrityError
      else Inr (Inserted \<lparr>row_id = auto_increment w, row_username = a, row_email = b,
                           row_password = c, row_created_at = now w\<rparr>))"
  by (simp add: store_execute_def)

lemma store_execute_by_email:
  "store_execute w select_by_email_sql [StrV a] =
     Inr (Selected (map select_star (filter (\<lambda>u. row_email u = a) (users w))))"
  by (simp add: store_execute_def)

lemma store_execute_by_username:
  "store_execute w select_by_username_sql [StrV a] =
     Inr (Selected (map select_star (filter (\<lambda>u. row_username u = a) (users w))))"
  by (simp add: store_execute_def)

lemma store_execute_profile:
  "store_execute w select_profile_sql [v] =
     (case v of
        IntV i \<Rightarrow> Inr (Selected (map select_profile (filter (\<lambda>u. row_id u = i) (users w))))
      | _ \<Rightarrow> Inl MySQLError)"
  by (simp add: store_execute_def split: py_val.splits)

lemma store_execute_emit [simp]: "store_execute (emit evs w) q ps = store_execute w q ps"
  by (simp add: store_execute_def emit_def split: list.splits py_val.splits)

lemma emit_fields [simp]:
  "users (emit evs w) = users w" "auto_increment (emit evs w) = auto_increment w"
  "now (emit evs w) = now w" "session (emit evs w) = session w"
  "flashes (emit evs w) = flashes w" "events (emit evs w) = events w @ evs"
  by (simp_all add: emit_def)

lemma flash_fields [simp]:
  "users (flash m c w) = users w" "auto_increment (flash m c w) = auto_increment w"
  "now (flash m c w) = now w" "session (flash m c w) = session w"
  "flashes (flash m c w) = flashes w @ [(m, c)]" "events (flash m c w) = events w"
  by (simp_all add: flash_def)

lemma set_session_fields [simp]:
  "users (set_session k v w) = users w" "auto_increment (set_session k v w) = auto_increment w"
  "now (set_session k v w) = now w" "session (set_session k v w) = (session w)(k \<mapsto> v)"
  "flashes (set_session k v w) = flashes w" "events (set_session k v w) = events w"
  by (simp_all add: set_session_def)

lemma session_pop_fields [simp]:
  "users (session_pop k w) = users w" "auto_increment (session_pop k w) = auto_increment w"
  "now (session_pop k w) = now w" "session (session_pop k w) = (session w)(k := None)"
  "flashes (session_pop k w) = flashes w" "events (session_pop k w) = events w"
  by (simp_all add: session_pop_def)

lemma getitem_select_star [simp]:
  "getitem (select_star u) ''id'' = Inr (IntV (row_id u))"
  "getitem (select_star u) ''username'' = Inr (StrV (row_username u))"
  "getitem (select_star u) ''email'' = Inr (StrV (row_email u))"
  "getitem (select_star u) ''password'' = Inr (StrV (row_password u))"
  by (simp_all add: getitem_def select_star_def)

lemma select_star_nonempty [simp]: "select_star u \<noteq> []"
  by (simp add: select_star_def)

lemma get_db_connection_split:
  "get_db_connection e m d w =
     (fst (get_db_connection_events e m d), emit (snd (get_db_connection_events e m d)) w)"
  by (simp add: get_db_connection_def split: prod.splits)

lemma get_db_connection1_split:
  "get_db_connection1 e w =
     (fst (get_db_connection1_events e), emit (snd (get_db_connection1_events e)) w)"
  by (simp add: get_db_connection1_def split: prod.splits)

lemma login_check_found:
  "login_check e (map_option select_star found) pw w =
     (case found of
        None \<Rightarrow> (Normal, True, flash ''Invalid email or password!'' ''danger'' w)
      | Some u \<Rightarrow>
          if check_password_hash e (row_password u) pw
          then (Returns (Redirect ''index''), True,
                flash ''Login successful!'' ''success''
                  (set_session ''email'' (StrV (row_email u))
                     (set_session ''username'' (StrV (row_username u))
                        (set_session ''user_id'' (IntV (row_id u)) w))))
          else (Normal, True, flash ''Invalid email or password!'' ''danger'' w))"
  by (simp add: login_check_def Let_def split: option.splits)

lemma login1_check_found:
  "login1_check e (map_option select_star found) pw w =
     (case found of
        None \<Rightarrow> (Render ''login.html'' NoData, flash ''Invalid username or password!'' ''danger'' w)
      | Some u \<Rightarrow>
          if check_password_hash e (row_password u) pw
          then (Redirect ''index'',
                flash ''Login successful!'' ''success''
                     (set_session ''username'' (StrV (row_username u))
                        (set_session ''user_id'' (IntV (row_id u)) w)))
          else (Render ''login.html'' NoData, flash ''Invalid username or password!'' ''danger'' w))"
  by (simp add: login1_check_def Let_def split: option.splits)

lemma login_answered:
  assumes "request_method rq = POST" "form rq ''email'' = Some em" "em \<noteq> []"
    "form rq ''password'' = Some pw" "pw \<noteq> []" "lookup_ok e"
  shows "observable (login e rq w) =
     (case find_by_email em w of
        None \<Rightarrow> (Render ''login.html'' NoData, users w, auto_increment w, session w,
                  flashes w @ [(''Invalid email or password!'', ''danger'')])
      | Some u \<Rightarrow>
          if check_password_hash e (row_password u) pw
          then (Redirect ''index'', users w, auto_increment w,
                (session w)(''user_id'' \<mapsto> IntV (row_id u), ''username'' \<mapsto> StrV (row_username u),
                            ''email'' \<mapsto> StrV (row_email u)),
                flashes w @ [(''Login successful!'', ''success'')])
          else (Render ''login.html'' NoData, users w, auto_increment w, session w,
                flashes w @ [(''Invalid email or password!'', ''danger'')]))"
proof -
  from assms(6) obtain c where c: "fst (get_db_connection_events e 5 5) = Some c"
    and nf: "\<not> cursor_raises e" "\<not> execute_raises e" "\<not> fetchone_raises e"
    by (auto simp: lookup_ok_def)
  show ?thesis
    using assms(1-5) c nf
    by (simp add: login_def falsy_def get_db_connection_split login_try_def Let_def
        store_execute_by_email fetchone_filter login_check_found login_except_def
        finally_close_def observable_def find_by_email_def
        split: option.splits)
qed

lemma login1_answered:
  assumes "request_method rq = POST" "form rq ''username'' = Some un"
    "form rq ''password'' = Some pw" "lookup_ok1 e"
  shows "observable (login1 e rq w) =
     (case find_by_username un w of
        None \<Rightarrow> (Render ''login.html'' NoData, users w, auto_increment w, session w,
                  flashes w @ [(''Invalid username or password!'', ''danger'')])
      | Some u \<Rightarrow>
          if check_password_hash e (row_password u) pw
          then (Redirect ''index'', users w, auto_increment w,
                (session w)(''user_id'' \<mapsto> IntV (row_id u), ''username'' \<mapsto> StrV (row_username u)),
                flashes w @ [(''Login successful!'', ''success'')])
          else (Render ''login.html'' NoData, users w, auto_increment w, session w,
                flashes w @ [(''Invalid username or password!'', ''danger'')]))"
proof -
  from assms(4) have c: "fst (get_db_connection1_events e) = Inr 0"
    and nf: "\<not> cursor_raises e" "\<not> execute_raises e" "\<not> fetchone_raises e"
    by (auto simp: lookup_ok1_def get_db_connection1_events_def split: connect_outcome.splits)
  show ?thesis
    using assms(1-3) c nf
    by (simp add: login1_def get_db_connection1_split Let_def
        store_execute_by_username fetchone_filter login1_check_found
        observable_def find_by_username_def
        split: option.splits)
qed

lemma new_flashes_append [simp]:
  "flashes w' = flashes w @ fs \<Longrightarrow> new_flashes w w' = fs"
  by (simp add: new_flashes_def)

lemma lookup_ok_env_ok [simp]: "lookup_ok env_ok" "lookup_ok1 env_ok"
  by (simp_all add: lookup_ok_def lookup_ok1_def env_ok_def get_db_connection_events_def
      connect_loop.simps)

lemma find_alice [simp]:
  "find_by_email ''bob@x.com'' world_alice = None"
  "find_by_email ''alice@x.com'' world_alice = Some alice"
  "find_by_username ''bob'' world_alice = None"
  "find_by_username ''alice'' world_alice = Some alice"
  by (simp_all add: find_by_email_def find_by_username_def world_alice_def world_empty_def alice_def)

lemma login_session_kept:
  "fst (login e rq w) \<noteq> Redirect ''index'' \<Longrightarrow> session (snd (login e rq w)) = session w"
  by (auto simp: login_def get_db_connection_split login_try_def Let_def
        store_execute_by_email fetchone_filter login_check_found login_except_def
        finally_close_def
        split: option.splits if_splits prod.splits completion.splits)

lemma login1_session_kept:
  "fst (login1 e rq w) \<noteq> Redirect ''index'' \<Longrightarrow> session (snd (login1 e rq w)) = session w"
  by (auto simp: login1_def get_db_connection1_split Let_def
        store_execute_by_username fetchone_filter login1_check_found
        split: option.splits if_splits prod.splits sum.splits)

lemma login_env_down:
  "fst (login env_down (post [(''email'', ''alice@x.com''), (''password'', ''pw1'')]) world_alice) =
     Render ''login.html'' NoData"
  "fst (login1 env_down (post [(''username'', ''alice''), (''password'', ''pw1'')]) world_alice) =
     Propagated MySQLError"
  by (simp_all add: login_def login1_def post_def falsy_def get_db_connection_split
      get_db_connection1_split get_db_connection_events_def get_db_connection1_events_def
      connect_loop.simps env_down_def env_ok_def)

lemma login_no_answer:
  assumes "\<not> (request_method rq = POST \<and> \<not> falsy (form rq ''email'') \<and>
              \<not> falsy (form rq ''password'') \<and> lookup_ok e)"
  shows "fst (login e rq w) \<noteq> Redirect ''index''"
  using assms
  by (auto simp: login_def get_db_connection_split login_try_def Let_def lookup_ok_def
        login_except_def finally_close_def store_execute_by_email
        split: option.splits if_splits prod.splits completion.splits)

lemma login1_no_answer:
  assumes "\<not> (request_method rq = POST \<and> form rq ''username'' \<noteq> None \<and>
              form rq ''password'' \<noteq> None \<and> lookup_ok1 e)"
  shows "fst (login1 e rq w) \<noteq> Redirect ''index''"
  using assms
  by (auto simp: login1_def get_db_connection1_split Let_def lookup_ok1_def
        get_db_connection1_events_def
        split: option.splits if_splits prod.splits sum.splits connect_outcome.splits)

lemma login_redirect_iff:
  "fst (login e rq w) = Redirect ''index'' \<longleftrightarrow>
     (\<exists>em pw. email_login_submission rq em pw \<and> lookup_ok e \<and>
              verifies e (find_by_email em w) pw)"
proof (cases "request_method rq = POST \<and> \<not> falsy (form rq ''email'') \<and>
              \<not> falsy (form rq ''password'') \<and> lookup_ok e")
  case False
  then have "fst (login e rq w) \<noteq> Redirect ''index''" by (rule login_no_answer)
  moreover from False have "\<not> (\<exists>em pw. email_login_submission rq em pw \<and> lookup_ok e \<and>
              verifies e (find_by_email em w) pw)"
    by (auto simp: email_login_submission_def falsy_def)
  ultimately show ?thesis by blast
next
  case True
  then obtain em pw where f: "request_method rq = POST" "form rq ''email'' = Some em" "em \<noteq> []"
    "form rq ''password'' = Some pw" "pw \<noteq> []" "lookup_ok e"
    by (auto simp: falsy_def split: option.splits)
  have "fst (login e rq w) = Redirect ''index'' \<longleftrightarrow> verifies e (find_by_email em w) pw"
    using login_answered [OF f, of w]
    by (auto simp: observable_def verifies_def split: prod.splits option.splits if_splits)
  moreover have "(\<exists>em' pw'. email_login_submission rq em' pw' \<and> lookup_ok e \<and>
              verifies e (find_by_email em' w) pw') \<longleftrightarrow> verifies e (find_by_email em w) pw"
    using f by (auto simp: email_login_submission_def)
  ultimately show ?thesis by blast
qed

lemma login1_redirect_iff:
  "fst (login1 e rq w) = Redirect ''index'' \<longleftrightarrow>
     (\<exists>un pw. username_login_submission rq un pw \<and> lookup_ok1 e \<and>
              verifies e (find_by_username un w) pw)"
proof (cases "request_method rq = POST \<and> form rq ''username'' \<noteq> None \<and>
              form rq ''password'' \<noteq> None \<and> lookup_ok1 e")
  case False
  then have "fst (login1 e rq w) \<noteq> Redirect ''index''" by (rule login1_no_answer)
  moreover from False have "\<not> (\<exists>un pw. username_login_submission rq un pw \<and> lookup_ok1 e \<and>
              verifies e (find_by_username un w) pw)"
    by (auto simp: username_login_submission_def)
  ultimately show ?thesis by blast
next
  case True
  then obtain un pw where f: "request_method rq = POST" "form rq ''username'' = Some un"
    "form rq ''password'' = Some pw" "lookup_ok1 e"
    by auto
  have "fst (login1 e rq w) = Redirect ''index'' \<longleftrightarrow> verifies e (find_by_username un w) pw"
    using login1_answered [OF f, of w]
    by (auto simp: observable_def verifies_def split: prod.splits option.splits if_splits)
  moreover have "(\<exists>un' pw'. username_login_submission rq un' pw' \<and> lookup_ok1 e \<and>
              verifies e (find_by_username un' w) pw') \<longleftrightarrow> verifies e (find_by_username un w) pw"
    using f by (auto simp: username_login_submission_def)
  ultimately show ?thesis by blast
qed

lemma login_env_down_flashes:
  "new_flashes world_alice
     (snd (login env_down (post [(''email'', ''alice@x.com''), (''password'', ''pw1'')]) world_alice)) =
     [(''Database connection failed. Please try again later.'', ''danger'')]"
  by (simp add: login_def post_def falsy_def get_db_connection_split
      get_db_connection_events_def connect_loop.simps env_down_def env_ok_def)

lemma login_env_down_wrong:
  "login env_down (post [(''email'', ''alice@x.com''), (''password'', ''wrong'')]) world_alice =
     (Render ''login.html'' NoData,
      flash ''Database connection failed. Please try again later.'' ''danger''
        (emit (snd (get_db_connection_events env_down 5 5)) world_alice))"
  by (simp add: login_def post_def falsy_def get_db_connection_split
      get_db_connection_events_def connect_loop.simps env_down_def env_ok_def)

lemma dashboard_anonymous:
  "session w ''user_id'' = None \<Longrightarrow>
     dashboard e w = (Redirect ''login'', flash ''Please login to access dashboard.'' ''warning'' w)"
  "session w ''user_id'' = None \<Longrightarrow>
     dashboard1 e w = (Redirect ''login'', flash ''Please login to access dashboard.'' ''warning'' w)"
  by (simp_all add: dashboard_def dashboard1_def)

lemma dashboard_rendered:
  assumes "fst (dashboard e w) = Render t d"
  shows "t = ''dashboard.html'' \<and>
     (\<exists>i. session w ''user_id'' = Some (IntV i) \<and> lookup_ok e \<and>
          d = User (map_option select_profile (find_by_id i w)))"
proof (cases "session w ''user_id''")
  case None
  with assms show ?thesis by (simp add: dashboard_def)
next
  case (Some v)
  with assms show ?thesis
    by (cases v)
       (auto simp: dashboard_def get_db_connection_split dashboard_try_def Let_def
          store_execute_profile fetchone_filter dashboard_except_def finally_close_def
          find_by_id_def lookup_ok_def
          split: option.splits if_splits)
qed

lemma dashboard1_rendered:
  assumes "fst (dashboard1 e w) = Render t d"
  shows "t = ''dashboard.html'' \<and>
     (\<exists>i. session w ''user_id'' = Some (IntV i) \<and> lookup_ok1 e \<and>
          d = User (map_option select_profile (find_by_id i w)))"
proof (cases "session w ''user_id''")
  case None
  with assms show ?thesis by (simp add: dashboard1_def)
next
  case (Some v)
  with assms show ?thesis
    by (cases v)
       (auto simp: dashboard1_def get_db_connection1_split Let_def
          store_execute_profile fetchone_filter find_by_id_def lookup_ok1_def
          get_db_connection1_events_def
          split: option.splits if_splits sum.splits connect_outcome.splits)
qed

lemma dashboard_answered:
  assumes "session w ''user_id'' = Some (IntV i)" "lookup_ok e"
  shows "fst (dashboard e w) = Render ''dashboard.html'' (User (map_option select_profile (find_by_id i w)))"
proof -
  from assms(2) obtain c where c: "fst (get_db_connection_events e 5 5) = Some c"
    and nf: "\<not> cursor_raises e" "\<not> execute_raises e" "\<not> fetchone_raises e"
    by (auto simp: lookup_ok_def)
  show ?thesis
    using assms(1) c nf
    by (simp add: dashboard_def get_db_connection_split dashboard_try_def Let_def
        store_execute_profile fetchone_filter dashboard_except_def finally_close_def
        find_by_id_def)
qed

lemma dashboard1_answered:
  assumes "session w ''user_id'' = Some (IntV i)" "lookup_ok1 e"
  shows "fst (dashboard1 e w) = Render ''dashboard.html'' (User (map_option select_profile (find_by_id i w)))"
proof -
  from assms(2) have c: "fst (get_db_connection1_events e) = Inr 0"
    and nf: "\<not> cursor_raises e" "\<not> execute_raises e" "\<not> fetchone_raises e"
    by (auto simp: lookup_ok1_def get_db_connection1_events_def split: connect_outcome.splits)
  show ?thesis
    using assms(1) c nf
    by (simp add: dashboard1_def get_db_connection1_split Let_def
        store_execute_profile fetchone_filter find_by_id_def)
qed

lemma dashboard_env_down:
  "fst (dashboard env_down world_alice_in) = Redirect ''index''"
  "fst (dashboard1 env_down world_alice_in) = Propagated MySQLError"
  by (simp_all add: dashboard_def dashboard1_def get_db_connection_split
      get_db_connection1_split get_db_connection_events_def get_db_connection1_events_def
      connect_loop.simps env_down_def env_ok_def world_alice_in_def world_alice_def
      world_empty_def)

lemma register_unavailable:
  assumes "register_submission rq un em pw" "fst (get_db_connection_events e 5 5) = None"
  shows "register e rq w =
     (Render ''register.html'' NoData,
      flash ''Database connection failed. Please try again later.'' ''danger''
        (emit (snd (get_db_connection_events e 5 5)) w))"
  using assms by (simp add: register_submission_def register_def get_db_connection_split)

lemma register_store_error:
  assumes "register_submission rq un em pw" "fst (get_db_connection_events e 5 5) \<noteq> None"
    "store_error e un em w"
  shows "fst (register e rq w) = Render ''register.html'' NoData"
    "flashes (snd (register e rq w)) = flashes w @ [(''An error occurred. Please try again.'', ''danger'')]"
    "users (snd (register e rq w)) = users w"
  using assms
  by (auto simp: register_submission_def register_def get_db_connection_split store_error_def
      duplicate_def register_try_def register_except_def finally_close_def Let_def
      store_execute_insert)

lemma register_session_kept:
  "session (snd (register e rq w)) = session w"
  by (auto simp: register_def get_db_connection_split register_try_def register_except_def
      finally_close_def Let_def store_execute_insert store_commit_def
      split: option.splits if_splits prod.splits completion.splits)

lemma register1_session_kept:
  "session (snd (register1 e rq w)) = session w"
  by (auto simp: register1_def get_db_connection1_split register1_try_def register1_except_def
      finally_close1_def Let_def store_execute_insert store_commit_def
      split: option.splits if_splits prod.splits completion.splits sum.splits)

lemma register1_unavailable:
  assumes "register_submission rq un em pw" "mysql_connect e 0 = ConnectFails"
  shows "register1 e rq w = (Propagated MySQLError, emit [Connect 0] w)"
  using assms
  by (simp add: register_submission_def register1_def get_db_connection1_split
      get_db_connection1_events_def)

lemma register1_store_error:
  assumes "register_submission rq un em pw" "mysql_connect e 0 \<noteq> ConnectFails"
    "store_error e un em w"
  shows "fst (register1 e rq w) = Propagated MySQLError"
    "flashes (snd (register1 e rq w)) = flashes w"
    "users (snd (register1 e rq w)) = users w"
  using assms
  by (auto simp: register_submission_def register1_def get_db_connection1_split
      get_db_connection1_events_def store_error_def
      duplicate_def register1_try_def register1_except_def finally_close1_def Let_def
      store_execute_insert split: connect_outcome.splits)

lemma register_no_raw_error:
  "fst (register e rq w) \<noteq> Propagated MySQLError"
  "fst (register e rq w) \<noteq> Propagated IntegrityError"
  by (auto simp: register_def get_db_connection_split register_try_def register_except_def
      finally_close_def Let_def store_execute_insert
      split: option.splits if_splits prod.splits completion.splits)

lemma env_down_unavailable:
  "get_db_connection_events env_down 5 5 =
     (None, [Connect 0, Print (AttemptFailedMsg 1), Print (RetryingMsg 5), Sleep 5,
             Connect 1, Print (AttemptFailedMsg 2), Print (RetryingMsg 5), Sleep 5,
             Connect 2, Print (AttemptFailedMsg 3), Print (RetryingMsg 5), Sleep 5,
             Connect 3, Print (AttemptFailedMsg 4), Print (RetryingMsg 5), Sleep 5,
             Connect 4, Print (AttemptFailedMsg 5), Print MaxRetriesMsg])"
  by (simp add: get_db_connection_events_def connect_loop.simps env_down_def env_ok_def)

lemma env_execute_fault_fields:
  "mysql_connect env_execute_fault 0 = Connected" "\<not> cursor_raises env_execute_fault"
  "execute_raises env_execute_fault" "is_connected env_execute_fault"
  "generate_password_hash env_execute_fault = hash_stub"
  "get_db_connection_events env_execute_fault 5 5 = (Some 0, [Connect 0, Print ConnectedMsg])"
  by (simp_all add: env_execute_fault_def env_ok_def get_db_connection_events_def
      connect_loop.simps)

lemma statements_append [simp]: "statements (xs @ ys) = statements xs @ statements ys"
  by (induction xs rule: statements.induct) simp_all

lemma connect_loop_statements:
  "statements (snd (connect_loop e m d a evs)) = statements evs"
proof (induction e m d a evs rule: connect_loop.induct)
  case (1 e max_retries retry_delay attempt evs)
  show ?case
    using 1
    by (subst connect_loop.simps) (simp split: connect_outcome.splits)
qed

lemma get_db_connection_statements [simp]:
  "statements (snd (get_db_connection_events e m d)) = []"
  "statements (snd (get_db_connection1_events e)) = []"
  by (simp_all add: get_db_connection_events_def connect_loop_statements
      get_db_connection1_events_def split: connect_outcome.splits)

lemma new_events_append [simp]: "events w' = events w @ evs \<Longrightarrow> new_events w w' = evs"
  by (simp add: new_events_def)

lemma store_commit_events [simp]: "events (store_commit x w) = events w"
  by (simp add: store_commit_def split: executed.splits)

lemma register_events:
  "\<exists>evs. events (snd (register e rq w)) = events w @ evs \<and>
         (statements evs = [] \<or> statements evs = [insert_user_sql])"
  by (auto simp: register_def get_db_connection_split register_try_def register_except_def
      finally_close_def Let_def
      split: option.splits if_splits prod.splits completion.splits sum.splits)

lemma register1_events:
  "\<exists>evs. events (snd (register1 e rq w)) = events w @ evs \<and>
         (statements evs = [] \<or> statements evs = [insert_user_sql])"
  by (auto simp: register1_def get_db_connection1_split register1_try_def register1_except_def
      finally_close1_def Let_def
      split: option.splits if_splits prod.splits completion.splits sum.splits)

lemma login_check_events [simp]:
  "events (snd (snd (login_check e user pw w))) = events w"
  by (auto simp: login_check_def Let_def split: option.splits sum.splits py_val.splits)

lemma login1_check_events [simp]:
  "events (snd (login1_check e user pw w)) = events w"
  by (auto simp: login1_check_def Let_def split: option.splits sum.splits py_val.splits)

lemma login_events:
  "\<exists>evs. events (snd (login e rq w)) = events w @ evs \<and>
         (statements evs = [] \<or> statements evs = [select_by_email_sql])"
proof -
  have *: "\<And>c b w' x y. login_check e x y w' = (c, b, w'') \<Longrightarrow> events w'' = events w'" for w''
    using login_check_events by (metis snd_conv)
  show ?thesis
    by (auto simp: login_def get_db_connection_split login_try_def login_except_def
        finally_close_def Let_def dest!: *
        split: option.splits if_splits prod.splits completion.splits sum.splits)
qed

lemma login1_events:
  "\<exists>evs. events (snd (login1 e rq w)) = events w @ evs \<and>
         (statements evs = [] \<or> statements evs = [select_by_username_sql])"
  by (auto simp: login1_def get_db_connection1_split Let_def
      split: option.splits if_splits prod.splits completion.splits sum.splits)

lemma dashboard_events:
  "\<exists>evs. events (snd (dashboard e w)) = events w @ evs \<and>
         (statements evs = [] \<or> statements evs = [select_profile_sql])"
  by (auto simp: dashboard_def get_db_connection_split dashboard_try_def dashboard_except_def
      finally_close_def Let_def
      split: option.splits if_splits prod.splits completion.splits sum.splits)

lemma dashboard1_events:
  "\<exists>evs. events (snd (dashboard1 e w)) = events w @ evs \<and>
         (statements evs = [] \<or> statements evs = [select_profile_sql])"
  by (auto simp: dashboard1_def get_db_connection1_split Let_def
      split: option.splits if_splits prod.splits completion.splits sum.splits)








section \<open>The connection helper retries\<close>

lemma connect_loop_succeeds:
  "a \<le> n \<Longrightarrow> int n < max_retries \<Longrightarrow>
   (\<forall>k. a \<le> k \<and> k < n \<longrightarrow> mysql_connect e k = ConnectFails) \<Longrightarrow>
   mysql_connect e n = Connected \<Longrightarrow>
   fst (connect_loop e max_retries d a evs) = Some n \<and>
   attempts_made (snd (connect_loop e max_retries d a evs)) = attempts_made evs + (n - a + 1) \<and>
   delays_observed (snd (connect_loop e max_retries d a evs)) =
     delays_observed evs @ replicate (n - a) (Sleep d)"
proof (induction "n - a" arbitrary: a evs)
  case 0
  then have "a = n" by simp
  with 0 show ?case
    by (simp add: connect_loop.simps [of e max_retries d n evs] attempts_made_def
        delays_observed_def)
next
  case (Suc j)
  then have lt: "a < n" and fails: "mysql_connect e a = ConnectFails" by auto
  from lt Suc.prems have bound: "int a < max_retries - 1" by linarith
  let ?evs = "evs @ [Connect a, Print (AttemptFailedMsg (int a + 1)), Print (RetryingMsg d), Sleep d]"
  have step: "connect_loop e max_retries d a evs = connect_loop e max_retries d (Suc a) ?evs"
    using fails bound by (simp add: connect_loop.simps [of e max_retries d a evs])
  have ih: "fst (connect_loop e max_retries d (Suc a) ?evs) = Some n \<and>
    attempts_made (snd (connect_loop e max_retries d (Suc a) ?evs)) =
      attempts_made ?evs + (n - Suc a + 1) \<and>
    delays_observed (snd (connect_loop e max_retries d (Suc a) ?evs)) =
      delays_observed ?evs @ replicate (n - Suc a) (Sleep d)"
    using Suc.hyps(2) Suc.prems lt by (intro Suc.hyps(1)) auto
  have rep: "replicate (n - a) (Sleep d) = Sleep d # replicate (n - Suc a) (Sleep d)"
    using lt by (metis Suc_diff_Suc replicate_Suc)
  show ?case
    using ih lt by (simp add: step rep attempts_made_def delays_observed_def)
qed

lemma connect_loop_exhausted:
  "(\<forall>k. a \<le> k \<and> int k < max_retries \<longrightarrow> mysql_connect e k = ConnectFails) \<Longrightarrow>
   fst (connect_loop e max_retries d a evs) = None \<and>
   attempts_made (snd (connect_loop e max_retries d a evs)) =
     attempts_made evs + nat (max_retries - int a) \<and>
   delays_observed (snd (connect_loop e max_retries d a evs)) =
     delays_observed evs @ replicate (nat (max_retries - int a) - 1) (Sleep d)"
proof (induction e max_retries d a evs rule: connect_loop.induct)
  case (1 e max_retries d a evs)
  show ?case
  proof (cases "int a < max_retries")
    case False
    then show ?thesis
      by (simp add: connect_loop.simps [of e max_retries d a evs])
  next
    case True
    with 1 have fails: "mysql_connect e a = ConnectFails" by simp
    show ?thesis
    proof (cases "int a < max_retries - 1")
      case False
      with True have "max_retries - int a = 1" by linarith
      with True False fails show ?thesis
        by (simp add: connect_loop.simps [of e max_retries d a evs] attempts_made_def
            delays_observed_def)
    next
      case more: True
      let ?evs = "evs @ [Connect a, Print (AttemptFailedMsg (int a + 1)), Print (RetryingMsg d), Sleep d]"
      have step: "connect_loop e max_retries d a evs = connect_loop e max_retries d (Suc a) ?evs"
        using fails True more by (simp add: connect_loop.simps [of e max_retries d a evs])
      have ih: "fst (connect_loop e max_retries d (Suc a) ?evs) = None \<and>
        attempts_made (snd (connect_loop e max_retries d (Suc a) ?evs)) =
          attempts_made ?evs + nat (max_retries - int (Suc a)) \<and>
        delays_observed (snd (connect_loop e max_retries d (Suc a) ?evs)) =
          delays_observed ?evs @ replicate (nat (max_retries - int (Suc a)) - 1) (Sleep d)"
        using "1.IH"(2) [OF True fails more] "1.prems" by simp
      have n1: "nat (max_retries - int a) = Suc (nat (max_retries - int (Suc a)))"
        using True by simp
      have n2: "nat (max_retries - int (Suc a)) = Suc (nat (max_retries - int (Suc a)) - 1)"
        using more by simp
      have rep: "replicate (nat (max_retries - int a) - 1) (Sleep d) =
                 Sleep d # replicate (nat (max_retries - int (Suc a)) - 1) (Sleep d)"
        using n1 n2 by (metis diff_Suc_1 replicate_Suc)
      have att: "attempts_made ?evs + nat (max_retries - int (Suc a)) =
                 attempts_made evs + nat (max_retries - int a)"
        unfolding n1 by (simp add: attempts_made_def)
      have del: "delays_observed ?evs = delays_observed evs @ [Sleep d]"
        by (simp add: delays_observed_def)
      show ?thesis
        unfolding step rep using ih att del by simp
    qed
  qed
qed

text \<open>
  Claim C5, as it holds on the code. In \<^verbatim>\<open>app.py\<close>: when the first \<open>N - 1\<close> calls of
  \<^verbatim>\<open>connect\<close> raise \<^verbatim>\<open>Error\<close> and call \<open>N\<close> connects, with \<open>1 \<le> N \<le> max_retries\<close>,
  \<^verbatim>\<open>get_db_connection\<close> returns the connection after exactly \<open>N\<close> calls and \<open>N - 1\<close> sleeps
  of \<open>retry_delay\<close>; when all \<open>max_retries\<close> calls raise, it returns \<^verbatim>\<open>None\<close> after
  \<open>max_retries\<close> calls. In \<^verbatim>\<open>app1.py\<close>, \<^verbatim>\<open>get_db_connection\<close> calls \<^verbatim>\<open>connect\<close> once, never
  sleeps, and a call that raises leaves the function as an exception.
\<close>

theorem get_db_connection_retries:
  "(1 \<le> N \<and> int N \<le> max_retries \<and> (\<forall>k. k < N - 1 \<longrightarrow> mysql_connect e k = ConnectFails) \<and>
    mysql_connect e (N - 1) = Connected \<longrightarrow>
      fst (get_db_connection_events e max_retries d) = Some (N - 1) \<and>
      attempts_made (snd (get_db_connection_events e max_retries d)) = N \<and>
      delays_observed (snd (get_db_connection_events e max_retries d)) =
        replicate (N - 1) (Sleep d)) \<and>
   ((\<forall>k. int k < max_retries' \<longrightarrow> mysql_connect e' k = ConnectFails) \<longrightarrow>
      fst (get_db_connection_events e' max_retries' d) = None \<and>
      attempts_made (snd (get_db_connection_events e' max_retries' d)) = nat max_retries') \<and>
   attempts_made (snd (get_db_connection1_events e1)) = 1 \<and>
   delays_observed (snd (get_db_connection1_events e1)) = [] \<and>
   (mysql_connect e1 0 = ConnectFails \<longrightarrow> fst (get_db_connection1_events e1) = Inl MySQLError) \<and>
   (mysql_connect e2 0 \<noteq> ConnectFails \<longrightarrow> fst (get_db_connection1_events e2) = Inr 0)"
proof -
  have retry: "fst (get_db_connection_events e max_retries d) = Some (N - 1) \<and>
      attempts_made (snd (get_db_connection_events e max_retries d)) = N \<and>
      delays_observed (snd (get_db_connection_events e max_retries d)) =
        replicate (N - 1) (Sleep d)"
    if h: "1 \<le> N" "int N \<le> max_retries" "\<forall>k. k < N - 1 \<longrightarrow> mysql_connect e k = ConnectFails"
      "mysql_connect e (N - 1) = Connected"
  proof -
    have b: "int (N - 1) < max_retries" using h(1,2) by linarith
    have f: "\<forall>k. 0 \<le> k \<and> k < N - 1 \<longrightarrow> mysql_connect e k = ConnectFails" using h(3) by simp
    show ?thesis
      using connect_loop_succeeds [of 0 "N - 1" max_retries e d "[]", OF _ b f h(4)] h(1)
      by (simp add: get_db_connection_events_def attempts_made_def delays_observed_def)
  qed
  have exhausted: "fst (get_db_connection_events e' max_retries' d) = None \<and>
      attempts_made (snd (get_db_connection_events e' max_retries' d)) = nat max_retries'"
    if h: "\<forall>k. int k < max_retries' \<longrightarrow> mysql_connect e' k = ConnectFails"
  proof -
    have f: "\<forall>k. 0 \<le> k \<and> int k < max_retries' \<longrightarrow> mysql_connect e' k = ConnectFails"
      using h by simp
    show ?thesis
      using connect_loop_exhausted [of 0 max_retries' e' d "[]", OF f]
      by (simp add: get_db_connection_events_def attempts_made_def)
  qed
  have one: "attempts_made (snd (get_db_connection1_events e1)) = 1 \<and>
             delays_observed (snd (get_db_connection1_events e1)) = []"
    by (simp add: get_db_connection1_events_def attempts_made_def delays_observed_def
        split: connect_outcome.splits)
  have raises: "mysql_connect e1 0 = ConnectFails \<longrightarrow>
                fst (get_db_connection1_events e1) = Inl MySQLError"
    by (simp add: get_db_connection1_events_def)
  have returns: "mysql_connect e2 0 \<noteq> ConnectFails \<longrightarrow> fst (get_db_connection1_events e2) = Inr 0"
    by (simp add: get_db_connection1_events_def split: connect_outcome.splits)
  show ?thesis
    using retry exhausted one raises returns by blast
qed

theorem get_db_connection_retries_witness:
  "fst (get_db_connection_events env_third 5 5) = Some 2 \<and>
   attempts_made (snd (get_db_connection_events env_third 5 5)) = 3 \<and>
   delays_observed (snd (get_db_connection_events env_third 5 5)) = [Sleep 5, Sleep 5] \<and>
   fst (get_db_connection_events env_down 5 5) = None \<and>
   attempts_made (snd (get_db_connection_events env_down 5 5)) = 5 \<and>
   fst (get_db_connection1_events env_down) = Inl MySQLError \<and>
   fst (get_db_connection1_events env_ok) = Inr 0"
proof -
  have h1: "(1::nat) \<le> 3 \<and> int 3 \<le> 5 \<and>
            (\<forall>k. k < 3 - 1 \<longrightarrow> mysql_connect env_third k = ConnectFails) \<and>
            mysql_connect env_third (3 - 1) = Connected"
    by (simp add: env_third_def env_ok_def)
  have h2: "\<forall>k. int k < 5 \<longrightarrow> mysql_connect env_down k = ConnectFails"
    by (simp add: env_down_def env_ok_def)
  have h3: "mysql_connect env_down 0 = ConnectFails"
    by (simp add: env_down_def env_ok_def)
  have h4: "mysql_connect env_ok 0 \<noteq> ConnectFails"
    by (simp add: env_ok_def)
  have r: "replicate (3 - 1) (Sleep 5) = [Sleep 5, Sleep 5]"
    by (simp add: numeral_2_eq_2)
  show ?thesis
    using get_db_connection_retries [of 3 5 env_third 5 5 env_down env_down env_ok] h1 h2 h3 h4 r
    by simp
qed

text \<open>
  Claim C5 as stated fails on \<^verbatim>\<open>app1.py\<close>: with the server down, its
  \<^verbatim>\<open>get_db_connection\<close> ends in the connector's exception, not in a failure value.
\<close>

theorem get_db_connection1_raises_counterexample:
  "fst (get_db_connection1_events env_down) = Inl MySQLError \<and>
   fst (get_db_connection_events env_down 5 5) = None"
  by (simp add: get_db_connection1_events_def get_db_connection_events_def env_down_def env_ok_def
      connect_loop.simps)

section \<open>Login\<close>

text \<open>
  Claim C2, as it holds on the code. Take two failed login submissions that reach the
  lookup and get an answer (in \<^verbatim>\<open>app.py\<close> both fields non-empty; in both variants a
  connection obtained and no connector call raising): one whose identifier matches no
  stored user, one whose identifier matches a user whose verifier the hasher rejects for
  the submitted password. In each variant both get the same response and the same flashed
  message, so the message does not tell which of the two was wrong. The identifier is the
  \<^verbatim>\<open>email\<close> field in \<^verbatim>\<open>app.py\<close> and the \<^verbatim>\<open>username\<close> field in \<^verbatim>\<open>app1.py\<close>. Response times are
  not part of the model.
\<close>

theorem login_failure_same_warning:
  "(email_login_submission rq1 em1 pw1 \<and> email_login_submission rq2 em2 pw2 \<and>
    lookup_ok e1 \<and> lookup_ok e2 \<and> find_by_email em1 w1 = None \<and>
    find_by_email em2 w2 = Some u \<and> \<not> check_password_hash e2 (row_password u) pw2 \<longrightarrow>
      fst (login e1 rq1 w1) = fst (login e2 rq2 w2) \<and>
      new_flashes w1 (snd (login e1 rq1 w1)) = new_flashes w2 (snd (login e2 rq2 w2)) \<and>
      new_flashes w1 (snd (login e1 rq1 w1)) = [(''Invalid email or password!'', ''danger'')]) \<and>
   (username_login_submission rq3 un3 pw3 \<and> username_login_submission rq4 un4 pw4 \<and>
    lookup_ok1 e3 \<and> lookup_ok1 e4 \<and> find_by_username un3 w3 = None \<and>
    find_by_username un4 w4 = Some v \<and> \<not> check_password_hash e4 (row_password v) pw4 \<longrightarrow>
      fst (login1 e3 rq3 w3) = fst (login1 e4 rq4 w4) \<and>
      new_flashes w3 (snd (login1 e3 rq3 w3)) = new_flashes w4 (snd (login1 e4 rq4 w4)) \<and>
      new_flashes w3 (snd (login1 e3 rq3 w3)) = [(''Invalid username or password!'', ''danger'')])"
proof (intro conjI impI)
  assume h: "email_login_submission rq1 em1 pw1 \<and> email_login_submission rq2 em2 pw2 \<and>
    lookup_ok e1 \<and> lookup_ok e2 \<and> find_by_email em1 w1 = None \<and>
    find_by_email em2 w2 = Some u \<and> \<not> check_password_hash e2 (row_password u) pw2"
  have miss: "observable (login e1 rq1 w1) =
      (Render ''login.html'' NoData, users w1, auto_increment w1, session w1,
       flashes w1 @ [(''Invalid email or password!'', ''danger'')])"
    using h login_answered [of rq1 em1 pw1 e1 w1] by (simp add: email_login_submission_def)
  have mismatch: "observable (login e2 rq2 w2) =
      (Render ''login.html'' NoData, users w2, auto_increment w2, session w2,
       flashes w2 @ [(''Invalid email or password!'', ''danger'')])"
    using h login_answered [of rq2 em2 pw2 e2 w2] by (simp add: email_login_submission_def)
  from miss mismatch show "fst (login e1 rq1 w1) = fst (login e2 rq2 w2)"
    by (simp add: observable_def split: prod.splits)
  from miss show m1: "new_flashes w1 (snd (login e1 rq1 w1)) = [(''Invalid email or password!'', ''danger'')]"
    by (simp add: observable_def split: prod.splits)
  from mismatch have "new_flashes w2 (snd (login e2 rq2 w2)) = [(''Invalid email or password!'', ''danger'')]"
    by (simp add: observable_def split: prod.splits)
  with m1 show "new_flashes w1 (snd (login e1 rq1 w1)) = new_flashes w2 (snd (login e2 rq2 w2))"
    by simp
next
  assume h: "username_login_submission rq3 un3 pw3 \<and> username_login_submission rq4 un4 pw4 \<and>
    lookup_ok1 e3 \<and> lookup_ok1 e4 \<and> find_by_username un3 w3 = None \<and>
    find_by_username un4 w4 = Some v \<and> \<not> check_password_hash e4 (row_password v) pw4"
  have miss: "observable (login1 e3 rq3 w3) =
      (Render ''login.html'' NoData, users w3, auto_increment w3, session w3,
       flashes w3 @ [(''Invalid username or password!'', ''danger'')])"
    using h login1_answered [of rq3 un3 pw3 e3 w3] by (simp add: username_login_submission_def)
  have mismatch: "observable (login1 e4 rq4 w4) =
      (Render ''login.html'' NoData, users w4, auto_increment w4, session w4,
       flashes w4 @ [(''Invalid username or password!'', ''danger'')])"
    using h login1_answered [of rq4 un4 pw4 e4 w4] by (simp add: username_login_submission_def)
  from miss mismatch show "fst (login1 e3 rq3 w3) = fst (login1 e4 rq4 w4)"
    by (simp add: observable_def split: prod.splits)
  from miss show m1: "new_flashes w3 (snd (login1 e3 rq3 w3)) = [(''Invalid username or password!'', ''danger'')]"
    by (simp add: observable_def split: prod.splits)
  from mismatch have "new_flashes w4 (snd (login1 e4 rq4 w4)) = [(''Invalid username or password!'', ''danger'')]"
    by (simp add: observable_def split: prod.splits)
  with m1 show "new_flashes w3 (snd (login1 e3 rq3 w3)) = new_flashes w4 (snd (login1 e4 rq4 w4))"
    by simp
qed

theorem login_failure_same_warning_witness:
  "fst (login env_ok (post [(''email'', ''bob@x.com''), (''password'', ''pw1'')]) world_alice) =
   fst (login env_ok (post [(''email'', ''alice@x.com''), (''password'', ''wrong'')]) world_alice) \<and>
   new_flashes world_alice
     (snd (login env_ok (post [(''email'', ''bob@x.com''), (''password'', ''pw1'')]) world_alice)) =
   new_flashes world_alice
     (snd (login env_ok (post [(''email'', ''alice@x.com''), (''password'', ''wrong'')]) world_alice)) \<and>
   new_flashes world_alice
     (snd (login env_ok (post [(''email'', ''bob@x.com''), (''password'', ''pw1'')]) world_alice)) =
     [(''Invalid email or password!'', ''danger'')] \<and>
   fst (login1 env_ok (post [(''username'', ''bob''), (''password'', ''pw1'')]) world_alice) =
   fst (login1 env_ok (post [(''username'', ''alice''), (''password'', ''wrong'')]) world_alice) \<and>
   new_flashes world_alice
     (snd (login1 env_ok (post [(''username'', ''bob''), (''password'', ''pw1'')]) world_alice)) =
   new_flashes world_alice
     (snd (login1 env_ok (post [(''username'', ''alice''), (''password'', ''wrong'')]) world_alice)) \<and>
   new_flashes world_alice
     (snd (login1 env_ok (post [(''username'', ''bob''), (''password'', ''pw1'')]) world_alice)) =
     [(''Invalid username or password!'', ''danger'')]"
proof -
  have s: "email_login_submission (post [(''email'', ''bob@x.com''), (''password'', ''pw1'')]) ''bob@x.com'' ''pw1''"
    "email_login_submission (post [(''email'', ''alice@x.com''), (''password'', ''wrong'')]) ''alice@x.com'' ''wrong''"
    "username_login_submission (post [(''username'', ''bob''), (''password'', ''pw1'')]) ''bob'' ''pw1''"
    "username_login_submission (post [(''username'', ''alice''), (''password'', ''wrong'')]) ''alice'' ''wrong''"
    by (simp_all add: email_login_submission_def username_login_submission_def post_def)
  have c: "\<not> check_password_hash env_ok (row_password alice) ''wrong''"
    by (simp add: env_ok_def check_stub_def alice_def)
  have h1: "email_login_submission (post [(''email'', ''bob@x.com''), (''password'', ''pw1'')]) ''bob@x.com'' ''pw1'' \<and>
    email_login_submission (post [(''email'', ''alice@x.com''), (''password'', ''wrong'')]) ''alice@x.com'' ''wrong'' \<and>
    lookup_ok env_ok \<and> lookup_ok env_ok \<and> find_by_email ''bob@x.com'' world_alice = None \<and>
    find_by_email ''alice@x.com'' world_alice = Some alice \<and>
    \<not> check_password_hash env_ok (row_password alice) ''wrong''"
    using s c by simp
  have h2: "username_login_submission (post [(''username'', ''bob''), (''password'', ''pw1'')]) ''bob'' ''pw1'' \<and>
    username_login_submission (post [(''username'', ''alice''), (''password'', ''wrong'')]) ''alice'' ''wrong'' \<and>
    lookup_ok1 env_ok \<and> lookup_ok1 env_ok \<and> find_by_username ''bob'' world_alice = None \<and>
    find_by_username ''alice'' world_alice = Some alice \<and>
    \<not> check_password_hash env_ok (row_password alice) ''wrong''"
    using s c by simp
  show ?thesis
    using login_failure_same_warning
      [of "post [(''email'', ''bob@x.com''), (''password'', ''pw1'')]" "''bob@x.com''" "''pw1''"
          "post [(''email'', ''alice@x.com''), (''password'', ''wrong'')]" "''alice@x.com''" "''wrong''"
          env_ok env_ok world_alice world_alice alice
          "post [(''username'', ''bob''), (''password'', ''pw1'')]" "''bob''" "''pw1''"
          "post [(''username'', ''alice''), (''password'', ''wrong'')]" "''alice''" "''wrong''"
          env_ok env_ok world_alice world_alice alice]
      h1 h2
    by blast
qed

text \<open>
  Claim C2 as stated fails on \<^verbatim>\<open>app.py\<close>. With alice registered, a submission for an
  unknown email gets the invalid-credentials message, while a submission for alice's email
  with the empty password, which her verifier rejects, is answered by the guard on empty
  fields with the required-fields message. The same submission with a wrong password that
  finds the store down gets the message that the connection failed.
\<close>

theorem login_failure_warning_counterexample:
  "find_by_email ''bob@x.com'' world_alice = None \<and>
   find_by_email ''alice@x.com'' world_alice = Some alice \<and>
   \<not> check_password_hash env_ok (row_password alice) [] \<and>
   new_flashes world_alice
     (snd (login env_ok (post [(''email'', ''bob@x.com''), (''password'', ''pw1'')]) world_alice)) =
     [(''Invalid email or password!'', ''danger'')] \<and>
   new_flashes world_alice
     (snd (login env_ok (post [(''email'', ''alice@x.com''), (''password'', [])]) world_alice)) =
     [(''Email and password are required!'', ''danger'')] \<and>
   \<not> check_password_hash env_down (row_password alice) ''wrong'' \<and>
   new_flashes world_alice
     (snd (login env_down (post [(''email'', ''alice@x.com''), (''password'', ''wrong'')]) world_alice)) =
     [(''Database connection failed. Please try again later.'', ''danger'')]"
proof -
  have c: "\<not> check_password_hash env_ok (row_password alice) []"
    "\<not> check_password_hash env_down (row_password alice) ''wrong''"
    by (simp_all add: env_ok_def env_down_def check_stub_def alice_def)
  have hA: "request_method (post [(''email'', ''bob@x.com''), (''password'', ''pw1'')]) = POST"
    "form (post [(''email'', ''bob@x.com''), (''password'', ''pw1'')]) ''email'' = Some ''bob@x.com''"
    "''bob@x.com'' \<noteq> []"
    "form (post [(''email'', ''bob@x.com''), (''password'', ''pw1'')]) ''password'' = Some ''pw1''"
    "''pw1'' \<noteq> []"
    by (simp_all add: post_def)
  have m: "new_flashes world_alice
     (snd (login env_ok (post [(''email'', ''bob@x.com''), (''password'', ''pw1'')]) world_alice)) =
     [(''Invalid email or password!'', ''danger'')]"
    using login_answered [OF hA lookup_ok_env_ok(1), of world_alice]
    by (simp add: observable_def split: prod.splits)
  have l: "login env_ok (post [(''email'', ''alice@x.com''), (''password'', [])]) world_alice =
      (Render ''login.html'' NoData, flash ''Email and password are required!'' ''danger'' world_alice)"
    by (simp add: login_def post_def falsy_def)
  show ?thesis using c m l by (simp add: login_env_down_wrong)
qed

text \<open>
  Claim C10. In \<^verbatim>\<open>app.py\<close>, a login submission whose \<^verbatim>\<open>email\<close> or \<^verbatim>\<open>password\<close> field is
  missing or empty is answered with the login form and the message that both are
  required, before \<^verbatim>\<open>get_db_connection\<close> is called: the run adds no event to the trace
  (no connection attempt, no statement), and session and table are as before. This holds
  whatever the store would have answered.
\<close>

theorem login_required_fields:
  "request_method rq = POST \<and>
   (form rq ''email'' = None \<or> form rq ''email'' = Some [] \<or>
    form rq ''password'' = None \<or> form rq ''password'' = Some []) \<longrightarrow>
     fst (login e rq w) = Render ''login.html'' NoData \<and>
     new_flashes w (snd (login e rq w)) = [(''Email and password are required!'', ''danger'')] \<and>
     events (snd (login e rq w)) = events w \<and>
     session (snd (login e rq w)) = session w \<and>
     users (snd (login e rq w)) = users w"
  by (auto simp: login_def falsy_def Let_def)

theorem login_required_fields_witness:
  "fst (login env_down (post [(''email'', ''alice@x.com'')]) world_alice) = Render ''login.html'' NoData \<and>
   new_flashes world_alice (snd (login env_down (post [(''email'', ''alice@x.com'')]) world_alice)) =
     [(''Email and password are required!'', ''danger'')] \<and>
   events (snd (login env_down (post [(''email'', ''alice@x.com'')]) world_alice)) = [] \<and>
   session (snd (login env_down (post [(''email'', ''alice@x.com'')]) world_alice)) = Map.empty \<and>
   fst (login env_ok (post [(''email'', ''''), (''password'', ''pw1'')]) world_alice) =
     Render ''login.html'' NoData \<and>
   events (snd (login env_ok (post [(''email'', ''''), (''password'', ''pw1'')]) world_alice)) = []"
proof -
  have h1: "request_method (post [(''email'', ''alice@x.com'')]) = POST \<and>
    (form (post [(''email'', ''alice@x.com'')]) ''email'' = None \<or>
     form (post [(''email'', ''alice@x.com'')]) ''email'' = Some [] \<or>
     form (post [(''email'', ''alice@x.com'')]) ''password'' = None \<or>
     form (post [(''email'', ''alice@x.com'')]) ''password'' = Some [])"
    by (simp add: post_def)
  have h2: "request_method (post [(''email'', ''''), (''password'', ''pw1'')]) = POST \<and>
    (form (post [(''email'', ''''), (''password'', ''pw1'')]) ''email'' = None \<or>
     form (post [(''email'', ''''), (''password'', ''pw1'')]) ''email'' = Some [] \<or>
     form (post [(''email'', ''''), (''password'', ''pw1'')]) ''password'' = None \<or>
     form (post [(''email'', ''''), (''password'', ''pw1'')]) ''password'' = Some [])"
    by (simp add: post_def)
  have w: "events world_alice = []" "session world_alice = Map.empty"
    by (simp_all add: world_alice_def world_empty_def)
  show ?thesis
    using login_required_fields [of "post [(''email'', ''alice@x.com'')]" env_down world_alice]
      login_required_fields [of "post [(''email'', ''''), (''password'', ''pw1'')]" env_ok world_alice]
      h1 h2 w
    by metis
qed

text \<open>
  Claim C3, as it holds on the code. A login run redirects to \<^verbatim>\<open>index\<close> if and only if
  the submission reaches the lookup and gets an answer (in \<^verbatim>\<open>app.py\<close> both fields
  non-empty; in both variants a connection obtained and no connector call raising), the
  lookup finds a user for the identifier and the hasher accepts the submitted password for
  its verifier. The equivalence holds for every request, environment and state: no run
  redirects to \<^verbatim>\<open>index\<close> without a found and verified user. When the transition occurs
  the session is bound to the user's id. When the submission reached the lookup, got an
  answer and the credentials do not verify, the login form is rendered with the
  invalid-credentials message. In every run that does not redirect to \<^verbatim>\<open>index\<close>, whatever
  the reason, the session is unchanged.
\<close>

theorem login_transition:
  "(fst (login e rq w) = Redirect ''index'' \<longleftrightarrow>
      (\<exists>em' pw'. email_login_submission rq em' pw' \<and> lookup_ok e \<and>
                 verifies e (find_by_email em' w) pw')) \<and>
   (email_login_submission rq em pw \<and> lookup_ok e \<longrightarrow>
      (verifies e (find_by_email em w) pw \<longrightarrow>
         fst (login e rq w) = Redirect ''index'' \<and>
         session (snd (login e rq w)) ''user_id'' =
           map_option (\<lambda>u. IntV (row_id u)) (find_by_email em w) \<and>
         new_flashes w (snd (login e rq w)) = [(''Login successful!'', ''success'')]) \<and>
      (\<not> verifies e (find_by_email em w) pw \<longrightarrow>
         fst (login e rq w) = Render ''login.html'' NoData \<and>
         new_flashes w (snd (login e rq w)) = [(''Invalid email or password!'', ''danger'')])) \<and>
   (fst (login e rq w) \<noteq> Redirect ''index'' \<longrightarrow> session (snd (login e rq w)) = session w) \<and>
   (fst (login1 e1 rq1 w1) = Redirect ''index'' \<longleftrightarrow>
      (\<exists>un' pw'. username_login_submission rq1 un' pw' \<and> lookup_ok1 e1 \<and>
                 verifies e1 (find_by_username un' w1) pw')) \<and>
   (username_login_submission rq1 un pw1 \<and> lookup_ok1 e1 \<longrightarrow>
      (verifies e1 (find_by_username un w1) pw1 \<longrightarrow>
         fst (login1 e1 rq1 w1) = Redirect ''index'' \<and>
         session (snd (login1 e1 rq1 w1)) ''user_id'' =
           map_option (\<lambda>u. IntV (row_id u)) (find_by_username un w1) \<and>
         new_flashes w1 (snd (login1 e1 rq1 w1)) = [(''Login successful!'', ''success'')]) \<and>
      (\<not> verifies e1 (find_by_username un w1) pw1 \<longrightarrow>
         fst (login1 e1 rq1 w1) = Render ''login.html'' NoData \<and>
         new_flashes w1 (snd (login1 e1 rq1 w1)) =
           [(''Invalid username or password!'', ''danger'')])) \<and>
   (fst (login1 e1 rq1 w1) \<noteq> Redirect ''index'' \<longrightarrow>
      session (snd (login1 e1 rq1 w1)) = session w1)"
proof (intro conjI impI)
  show "fst (login e rq w) = Redirect ''index'' \<longleftrightarrow>
      (\<exists>em' pw'. email_login_submission rq em' pw' \<and> lookup_ok e \<and>
                 verifies e (find_by_email em' w) pw')"
    by (rule login_redirect_iff)
next
  show "fst (login1 e1 rq1 w1) = Redirect ''index'' \<longleftrightarrow>
      (\<exists>un' pw'. username_login_submission rq1 un' pw' \<and> lookup_ok1 e1 \<and>
                 verifies e1 (find_by_username un' w1) pw')"
    by (rule login1_redirect_iff)
next
  assume "fst (login e rq w) \<noteq> Redirect ''index''"
  then show "session (snd (login e rq w)) = session w" by (rule login_session_kept)
next
  assume "fst (login1 e1 rq1 w1) \<noteq> Redirect ''index''"
  then show "session (snd (login1 e1 rq1 w1)) = session w1" by (rule login1_session_kept)
next
  assume h: "email_login_submission rq em pw \<and> lookup_ok e"
  then have obs: "observable (login e rq w) =
     (case find_by_email em w of
        None \<Rightarrow> (Render ''login.html'' NoData, users w, auto_increment w, session w,
                  flashes w @ [(''Invalid email or password!'', ''danger'')])
      | Some u \<Rightarrow>
          if check_password_hash e (row_password u) pw
          then (Redirect ''index'', users w, auto_increment w,
                (session w)(''user_id'' \<mapsto> IntV (row_id u), ''username'' \<mapsto> StrV (row_username u),
                            ''email'' \<mapsto> StrV (row_email u)),
                flashes w @ [(''Login successful!'', ''success'')])
          else (Render ''login.html'' NoData, users w, auto_increment w, session w,
                flashes w @ [(''Invalid email or password!'', ''danger'')]))"
    using login_answered [of rq em pw e w] by (simp add: email_login_submission_def)
  {
    assume v: "verifies e (find_by_email em w) pw"
    show "fst (login e rq w) = Redirect ''index''"
      using obs v by (auto simp: observable_def verifies_def split: prod.splits option.splits if_splits)
    show "session (snd (login e rq w)) ''user_id'' =
            map_option (\<lambda>u. IntV (row_id u)) (find_by_email em w)"
      using obs v by (auto simp: observable_def verifies_def split: prod.splits option.splits if_splits)
    show "new_flashes w (snd (login e rq w)) = [(''Login successful!'', ''success'')]"
      using obs v by (auto simp: observable_def verifies_def split: prod.splits option.splits if_splits)
  }
  {
    assume v: "\<not> verifies e (find_by_email em w) pw"
    show "fst (login e rq w) = Render ''login.html'' NoData"
      using obs v by (auto simp: observable_def verifies_def split: prod.splits option.splits if_splits)
    show "new_flashes w (snd (login e rq w)) = [(''Invalid email or password!'', ''danger'')]"
      using obs v by (auto simp: observable_def verifies_def split: prod.splits option.splits if_splits)
  }
next
  assume h: "username_login_submission rq1 un pw1 \<and> lookup_ok1 e1"
  then have obs: "observable (login1 e1 rq1 w1) =
     (case find_by_username un w1 of
        None \<Rightarrow> (Render ''login.html'' NoData, users w1, auto_increment w1, session w1,
                  flashes w1 @ [(''Invalid username or password!'', ''danger'')])
      | Some u \<Rightarrow>
          if check_password_hash e1 (row_password u) pw1
          then (Redirect ''index'', users w1, auto_increment w1,
                (session w1)(''user_id'' \<mapsto> IntV (row_id u), ''username'' \<mapsto> StrV (row_username u)),
                flashes w1 @ [(''Login successful!'', ''success'')])
          else (Render ''login.html'' NoData, users w1, auto_increment w1, session w1,
                flashes w1 @ [(''Invalid username or password!'', ''danger'')]))"
    using login1_answered [of rq1 un pw1 e1 w1] by (simp add: username_login_submission_def)
  {
    assume v: "verifies e1 (find_by_username un w1) pw1"
    show "fst (login1 e1 rq1 w1) = Redirect ''index''"
      using obs v by (auto simp: observable_def verifies_def split: prod.splits option.splits if_splits)
    show "session (snd (login1 e1 rq1 w1)) ''user_id'' =
            map_option (\<lambda>u. IntV (row_id u)) (find_by_username un w1)"
      using obs v by (auto simp: observable_def verifies_def split: prod.splits option.splits if_splits)
    show "new_flashes w1 (snd (login1 e1 rq1 w1)) = [(''Login successful!'', ''success'')]"
      using obs v by (auto simp: observable_def verifies_def split: prod.splits option.splits if_splits)
  }
  {
    assume v: "\<not> verifies e1 (find_by_username un w1) pw1"
    show "fst (login1 e1 rq1 w1) = Render ''login.html'' NoData"
      using obs v by (auto simp: observable_def verifies_def split: prod.splits option.splits if_splits)
    show "new_flashes w1 (snd (login1 e1 rq1 w1)) = [(''Invalid username or password!'', ''danger'')]"
      using obs v by (auto simp: observable_def verifies_def split: prod.splits option.splits if_splits)
  }
qed

theorem login_transition_witness:
  "fst (login env_ok (post [(''email'', ''alice@x.com''), (''password'', ''pw1'')]) world_alice) =
     Redirect ''index'' \<and>
   session (snd (login env_ok (post [(''email'', ''alice@x.com''), (''password'', ''pw1'')])
                   world_alice)) ''user_id'' = Some (IntV 1) \<and>
   fst (login env_ok (post [(''email'', ''alice@x.com''), (''password'', ''wrong'')]) world_alice) =
     Render ''login.html'' NoData \<and>
   session (snd (login env_ok (post [(''email'', ''alice@x.com''), (''password'', ''wrong'')])
                   world_alice)) = session world_alice \<and>
   fst (login1 env_ok (post [(''username'', ''alice''), (''password'', ''pw1'')]) world_alice) =
     Redirect ''index'' \<and>
   session (snd (login1 env_ok (post [(''username'', ''alice''), (''password'', ''pw1'')])
                   world_alice)) ''user_id'' = Some (IntV 1) \<and>
   fst (login1 env_ok (post [(''username'', ''alice''), (''password'', ''wrong'')]) world_alice) =
     Render ''login.html'' NoData \<and>
   session (snd (login1 env_ok (post [(''username'', ''alice''), (''password'', ''wrong'')])
                   world_alice)) = session world_alice \<and>
   (\<exists>em' pw'. email_login_submission (post [(''email'', ''alice@x.com''), (''password'', ''pw1'')])
                em' pw' \<and> lookup_ok env_ok \<and> verifies env_ok (find_by_email em' world_alice) pw') \<and>
   (\<exists>un' pw'. username_login_submission (post [(''username'', ''alice''), (''password'', ''pw1'')])
                un' pw' \<and> lookup_ok1 env_ok \<and> verifies env_ok (find_by_username un' world_alice) pw')"
proof -
  let ?rqA = "post [(''email'', ''alice@x.com''), (''password'', ''pw1'')]"
  let ?rqB = "post [(''username'', ''alice''), (''password'', ''pw1'')]"
  let ?rqC = "post [(''email'', ''alice@x.com''), (''password'', ''wrong'')]"
  let ?rqD = "post [(''username'', ''alice''), (''password'', ''wrong'')]"
  have hA: "email_login_submission ?rqA ''alice@x.com'' ''pw1'' \<and> lookup_ok env_ok"
    by (simp add: email_login_submission_def post_def)
  have hB: "username_login_submission ?rqB ''alice'' ''pw1'' \<and> lookup_ok1 env_ok"
    by (simp add: username_login_submission_def post_def)
  have hC: "email_login_submission ?rqC ''alice@x.com'' ''wrong'' \<and> lookup_ok env_ok"
    by (simp add: email_login_submission_def post_def)
  have hD: "username_login_submission ?rqD ''alice'' ''wrong'' \<and> lookup_ok1 env_ok"
    by (simp add: username_login_submission_def post_def)
  have vA: "verifies env_ok (find_by_email ''alice@x.com'' world_alice) ''pw1''"
    by (simp add: verifies_def env_ok_def check_stub_def alice_def)
  have vB: "verifies env_ok (find_by_username ''alice'' world_alice) ''pw1''"
    by (simp add: verifies_def env_ok_def check_stub_def alice_def)
  have vC: "\<not> verifies env_ok (find_by_email ''alice@x.com'' world_alice) ''wrong''"
    by (simp add: verifies_def env_ok_def check_stub_def alice_def)
  have vD: "\<not> verifies env_ok (find_by_username ''alice'' world_alice) ''wrong''"
    by (simp add: verifies_def env_ok_def check_stub_def alice_def)
  have idA: "map_option (\<lambda>u. IntV (row_id u)) (find_by_email ''alice@x.com'' world_alice) = Some (IntV 1)"
    by (simp add: alice_def)
  have idB: "map_option (\<lambda>u. IntV (row_id u)) (find_by_username ''alice'' world_alice) = Some (IntV 1)"
    by (simp add: alice_def)
  note t = login_transition [of env_ok ?rqA world_alice "''alice@x.com''" "''pw1''"
      env_ok ?rqB world_alice "''alice''" "''pw1''"]
  note s = login_transition [of env_ok ?rqC world_alice "''alice@x.com''" "''wrong''"
      env_ok ?rqD world_alice "''alice''" "''wrong''"]
  from t hA vA idA have 1: "fst (login env_ok ?rqA world_alice) = Redirect ''index''"
    and 2: "session (snd (login env_ok ?rqA world_alice)) ''user_id'' = Some (IntV 1)"
    by metis+
  from t hB vB idB have 3: "fst (login1 env_ok ?rqB world_alice) = Redirect ''index''"
    and 4: "session (snd (login1 env_ok ?rqB world_alice)) ''user_id'' = Some (IntV 1)"
    by metis+
  from s hC vC have 5: "fst (login env_ok ?rqC world_alice) = Render ''login.html'' NoData"
    by blast
  from s hD vD have 6: "fst (login1 env_ok ?rqD world_alice) = Render ''login.html'' NoData"
    by blast
  from s 5 have 7: "session (snd (login env_ok ?rqC world_alice)) = session world_alice"
    by simp
  from s 6 have 8: "session (snd (login1 env_ok ?rqD world_alice)) = session world_alice"
    by simp
  from t 1 have 9: "\<exists>em' pw'. email_login_submission ?rqA em' pw' \<and> lookup_ok env_ok \<and>
      verifies env_ok (find_by_email em' world_alice) pw'"
    by blast
  from t 3 have 10: "\<exists>un' pw'. username_login_submission ?rqB un' pw' \<and> lookup_ok1 env_ok \<and>
      verifies env_ok (find_by_username un' world_alice) pw'"
    by blast
  from 1 2 5 7 3 4 6 8 9 10 show ?thesis by blast
qed

text \<open>
  Claim C3 as stated fails on \<^verbatim>\<open>app.py\<close>: a user registered with the empty password is
  found and verified, yet the guard on empty fields answers the submission first, with
  the required-fields message and not the invalid-credentials one. \<^verbatim>\<open>app1.py\<close>, which has
  no such guard, logs the same user in. A submission that finds the store down is
  answered with the message that the connection failed.
\<close>

theorem login_empty_password_counterexample:
  "verifies env_ok (find_by_email ''eve@x.com'' world_eve) [] \<and>
   fst (login env_ok (post [(''email'', ''eve@x.com''), (''password'', [])]) world_eve) =
     Render ''login.html'' NoData \<and>
   new_flashes world_eve
     (snd (login env_ok (post [(''email'', ''eve@x.com''), (''password'', [])]) world_eve)) =
     [(''Email and password are required!'', ''danger'')] \<and>
   fst (login1 env_ok (post [(''username'', ''eve''), (''password'', [])]) world_eve) =
     Redirect ''index'' \<and>
   new_flashes world_alice
     (snd (login env_down (post [(''email'', ''alice@x.com''), (''password'', ''pw1'')]) world_alice)) =
     [(''Database connection failed. Please try again later.'', ''danger'')]"
proof -
  have f: "find_by_email ''eve@x.com'' world_eve = Some eve"
    "find_by_username ''eve'' world_eve = Some eve"
    by (simp_all add: find_by_email_def find_by_username_def world_eve_def world_empty_def
        alice_def eve_def)
  have v: "verifies env_ok (find_by_email ''eve@x.com'' world_eve) []"
    by (simp add: f verifies_def env_ok_def check_stub_def eve_def)
  have l: "login env_ok (post [(''email'', ''eve@x.com''), (''password'', [])]) world_eve =
      (Render ''login.html'' NoData, flash ''Email and password are required!'' ''danger'' world_eve)"
    by (simp add: login_def post_def falsy_def)
  have hB: "request_method (post [(''username'', ''eve''), (''password'', [])]) = POST"
    "form (post [(''username'', ''eve''), (''password'', [])]) ''username'' = Some ''eve''"
    "form (post [(''username'', ''eve''), (''password'', [])]) ''password'' = Some []"
    by (simp_all add: post_def)
  have c: "check_password_hash env_ok (row_password eve) []"
    by (simp add: env_ok_def check_stub_def eve_def)
  have l1: "fst (login1 env_ok (post [(''username'', ''eve''), (''password'', [])]) world_eve) =
      Redirect ''index''"
    using login1_answered [OF hB lookup_ok_env_ok(2), of world_eve] f c
    by (simp add: observable_def split: prod.splits)
  show ?thesis using v l l1 login_env_down_flashes by simp
qed

section \<open>Dashboard\<close>

text \<open>
  Claim C1, as it holds on the code. A dashboard request with no \<^verbatim>\<open>user_id\<close> in the session
  is redirected to \<^verbatim>\<open>login\<close> with a warning, in both variants, and adds no event to the
  trace: no connection attempt and no statement. A dashboard run renders a page exactly
  when the session holds an integer \<^verbatim>\<open>user_id\<close> and the lookup gets an answer (a connection
  obtained and no connector call raising); what the template is given is then the result
  of the lookup by that id, which for a stored user is the row with the keys \<^verbatim>\<open>id\<close>,
  \<^verbatim>\<open>username\<close>, \<^verbatim>\<open>email\<close> and \<^verbatim>\<open>created_at\<close> and no others, so never the key \<^verbatim>\<open>password\<close>,
  and for an id with no stored user is \<^verbatim>\<open>None\<close>.
\<close>

theorem dashboard_projection:
  "(session w ''user_id'' = None \<longrightarrow>
      fst (dashboard e w) = Redirect ''login'' \<and>
      events (snd (dashboard e w)) = events w \<and>
      new_flashes w (snd (dashboard e w)) = [(''Please login to access dashboard.'', ''warning'')] \<and>
      fst (dashboard1 e w) = Redirect ''login'' \<and>
      events (snd (dashboard1 e w)) = events w \<and>
      new_flashes w (snd (dashboard1 e w)) = [(''Please login to access dashboard.'', ''warning'')]) \<and>
   (fst (dashboard e w) = Render t d \<longleftrightarrow>
      t = ''dashboard.html'' \<and>
      (\<exists>i'. session w ''user_id'' = Some (IntV i') \<and> lookup_ok e \<and>
            d = User (map_option select_profile (find_by_id i' w)))) \<and>
   (fst (dashboard1 e w) = Render t d \<longleftrightarrow>
      t = ''dashboard.html'' \<and>
      (\<exists>i'. session w ''user_id'' = Some (IntV i') \<and> lookup_ok1 e \<and>
            d = User (map_option select_profile (find_by_id i' w)))) \<and>
   (session w ''user_id'' = Some (IntV i) \<and> find_by_id i w = Some u \<longrightarrow>
      (lookup_ok e \<longrightarrow>
         fst (dashboard e w) =
           Render ''dashboard.html''
             (User (Some [(''id'', IntV (row_id u)), (''username'', StrV (row_username u)),
                          (''email'', StrV (row_email u)),
                          (''created_at'', TimeV (row_created_at u))]))) \<and>
      (lookup_ok1 e \<longrightarrow>
         fst (dashboard1 e w) =
           Render ''dashboard.html''
             (User (Some [(''id'', IntV (row_id u)), (''username'', StrV (row_username u)),
                          (''email'', StrV (row_email u)),
                          (''created_at'', TimeV (row_created_at u))])))) \<and>
   map fst (select_profile u) = [''id'', ''username'', ''email'', ''created_at''] \<and>
   map_of (select_profile u) ''password'' = None"
proof (intro conjI impI)
  assume a: "session w ''user_id'' = None"
  show "fst (dashboard e w) = Redirect ''login''"
    "events (snd (dashboard e w)) = events w"
    "new_flashes w (snd (dashboard e w)) = [(''Please login to access dashboard.'', ''warning'')]"
    "fst (dashboard1 e w) = Redirect ''login''"
    "events (snd (dashboard1 e w)) = events w"
    "new_flashes w (snd (dashboard1 e w)) = [(''Please login to access dashboard.'', ''warning'')]"
    using a by (simp_all add: dashboard_anonymous)
next
  show "fst (dashboard e w) = Render t d \<longleftrightarrow>
      t = ''dashboard.html'' \<and>
      (\<exists>i'. session w ''user_id'' = Some (IntV i') \<and> lookup_ok e \<and>
            d = User (map_option select_profile (find_by_id i' w)))"
    using dashboard_rendered [of e w t d] dashboard_answered [of w _ e] by blast
next
  show "fst (dashboard1 e w) = Render t d \<longleftrightarrow>
      t = ''dashboard.html'' \<and>
      (\<exists>i'. session w ''user_id'' = Some (IntV i') \<and> lookup_ok1 e \<and>
            d = User (map_option select_profile (find_by_id i' w)))"
    using dashboard1_rendered [of e w t d] dashboard1_answered [of w _ e] by blast
next
  assume a: "session w ''user_id'' = Some (IntV i) \<and> find_by_id i w = Some u" and l: "lookup_ok e"
  show "fst (dashboard e w) =
           Render ''dashboard.html''
             (User (Some [(''id'', IntV (row_id u)), (''username'', StrV (row_username u)),
                          (''email'', StrV (row_email u)),
                          (''created_at'', TimeV (row_created_at u))]))"
    using a l dashboard_answered [of w i e] by (simp add: select_profile_def)
next
  assume a: "session w ''user_id'' = Some (IntV i) \<and> find_by_id i w = Some u" and l: "lookup_ok1 e"
  show "fst (dashboard1 e w) =
           Render ''dashboard.html''
             (User (Some [(''id'', IntV (row_id u)), (''username'', StrV (row_username u)),
                          (''email'', StrV (row_email u)),
                          (''created_at'', TimeV (row_created_at u))]))"
    using a l dashboard1_answered [of w i e] by (simp add: select_profile_def)
next
  show "map fst (select_profile u) = [''id'', ''username'', ''email'', ''created_at'']"
    by (simp add: select_profile_def)
next
  show "map_of (select_profile u) ''password'' = None"
    by (simp add: select_profile_def)
qed

theorem dashboard_projection_witness:
  "fst (dashboard env_down world_alice) = Redirect ''login'' \<and>
   events (snd (dashboard env_down world_alice)) = [] \<and>
   fst (dashboard1 env_down world_alice) = Redirect ''login'' \<and>
   events (snd (dashboard1 env_down world_alice)) = [] \<and>
   fst (dashboard env_ok world_alice_in) =
     Render ''dashboard.html''
       (User (Some [(''id'', IntV 1), (''username'', StrV ''alice''),
                    (''email'', StrV ''alice@x.com''), (''created_at'', TimeV 0)])) \<and>
   fst (dashboard1 env_ok world_alice_in) =
     Render ''dashboard.html''
       (User (Some [(''id'', IntV 1), (''username'', StrV ''alice''),
                    (''email'', StrV ''alice@x.com''), (''created_at'', TimeV 0)]))"
proof -
  have a: "session world_alice ''user_id'' = None"
    by (simp add: world_alice_def world_empty_def)
  have a': "events world_alice = []"
    by (simp add: world_alice_def world_empty_def)
  have b: "session world_alice_in ''user_id'' = Some (IntV 1) \<and>
           find_by_id 1 world_alice_in = Some alice"
    by (simp add: world_alice_in_def world_alice_def world_empty_def find_by_id_def alice_def)
  have r: "[(''id'', IntV (row_id alice)), (''username'', StrV (row_username alice)),
            (''email'', StrV (row_email alice)), (''created_at'', TimeV (row_created_at alice))] =
           [(''id'', IntV 1), (''username'', StrV ''alice''),
            (''email'', StrV ''alice@x.com''), (''created_at'', TimeV 0)]"
    by (simp add: alice_def)
  note t = dashboard_projection [of world_alice env_down "''dashboard.html''" NoData 1 alice]
  note s = dashboard_projection [of world_alice_in env_ok "''dashboard.html''" NoData 1 alice]
  from t a have 1: "fst (dashboard env_down world_alice) = Redirect ''login''"
    and 2: "events (snd (dashboard env_down world_alice)) = events world_alice"
    and 3: "fst (dashboard1 env_down world_alice) = Redirect ''login''"
    and 4: "events (snd (dashboard1 env_down world_alice)) = events world_alice"
    by blast+
  from s b lookup_ok_env_ok(1) have 5: "fst (dashboard env_ok world_alice_in) =
     Render ''dashboard.html''
       (User (Some [(''id'', IntV (row_id alice)), (''username'', StrV (row_username alice)),
            (''email'', StrV (row_email alice)), (''created_at'', TimeV (row_created_at alice))]))"
    by blast
  from s b lookup_ok_env_ok(2) have 6: "fst (dashboard1 env_ok world_alice_in) =
     Render ''dashboard.html''
       (User (Some [(''id'', IntV (row_id alice)), (''username'', StrV (row_username alice)),
            (''email'', StrV (row_email alice)), (''created_at'', TimeV (row_created_at alice))]))"
    by blast
  from 1 2 3 4 5 6 show ?thesis unfolding r a' by blast
qed

text \<open>
  Claim C1 as stated fails for authenticated requests that get no row. With \<^verbatim>\<open>user_id\<close> in
  the session and the store unreachable, \<^verbatim>\<open>app.py\<close> redirects to \<^verbatim>\<open>index\<close> and \<^verbatim>\<open>app1.py\<close>
  lets the connector's exception through; with \<^verbatim>\<open>user_id\<close> in the session and no stored user
  of that id, both variants render the dashboard with \<^verbatim>\<open>None\<close>. No projection with the four
  fields is returned in either case.
\<close>

theorem dashboard_no_projection_counterexample:
  "session world_alice_in ''user_id'' = Some (IntV 1) \<and>
   fst (dashboard env_down world_alice_in) = Redirect ''index'' \<and>
   fst (dashboard1 env_down world_alice_in) = Propagated MySQLError \<and>
   session world_orphan ''user_id'' = Some (IntV 1) \<and>
   fst (dashboard env_ok world_orphan) = Render ''dashboard.html'' (User None) \<and>
   fst (dashboard1 env_ok world_orphan) = Render ''dashboard.html'' (User None)"
proof -
  have a: "session world_alice_in ''user_id'' = Some (IntV 1)"
    by (simp add: world_alice_in_def world_alice_def world_empty_def)
  have b: "session world_orphan ''user_id'' = Some (IntV 1)"
    "find_by_id 1 world_orphan = None"
    by (simp_all add: world_orphan_def world_empty_def find_by_id_def)
  have c: "fst (dashboard env_ok world_orphan) = Render ''dashboard.html'' (User None)"
    using dashboard_answered [OF b(1) lookup_ok_env_ok(1)] b(2) by simp
  have d: "fst (dashboard1 env_ok world_orphan) = Render ''dashboard.html'' (User None)"
    using dashboard1_answered [OF b(1) lookup_ok_env_ok(2)] b(2) by simp
  show ?thesis using a b(1) c d dashboard_env_down by simp
qed

section \<open>Release of connection and cursor\<close>

text \<open>
  Claim C6 fails on \<^verbatim>\<open>login\<close> and \<^verbatim>\<open>dashboard\<close> of \<^verbatim>\<open>app1.py\<close>. With alice logged in and
  \<^verbatim>\<open>cursor.execute\<close> raising, \<^verbatim>\<open>dashboard\<close> of \<^verbatim>\<open>app1.py\<close> ends with the connector's
  exception after the connection and the cursor were obtained and the statement sent;
  neither \<^verbatim>\<open>cursor.close()\<close> nor \<^verbatim>\<open>connection.close()\<close> runs. The same holds of its \<^verbatim>\<open>login\<close>.
  On the same fault \<^verbatim>\<open>register\<close> of \<^verbatim>\<open>app1.py\<close>, whose \<^verbatim>\<open>finally\<close> clause closes both, and
  \<^verbatim>\<open>dashboard\<close> of \<^verbatim>\<open>app.py\<close> do release them.
\<close>

theorem dashboard1_execute_fault_not_released:
  "fst (dashboard1 env_execute_fault world_alice_in) = Propagated MySQLError \<and>
   events (snd (dashboard1 env_execute_fault world_alice_in)) =
     [Connect 0, CursorOpen, Execute select_profile_sql [IntV 1]] \<and>
   fst (login1 env_execute_fault (post [(''username'', ''alice''), (''password'', ''pw1'')])
          world_alice) = Propagated MySQLError \<and>
   events (snd (login1 env_execute_fault (post [(''username'', ''alice''), (''password'', ''pw1'')])
                  world_alice)) =
     [Connect 0, CursorOpen, Execute select_by_username_sql [StrV ''alice'']] \<and>
   fst (register1 env_execute_fault
          (post [(''username'', ''bob''), (''email'', ''bob@x.com''), (''password'', ''pw2'')])
          world_alice) = Propagated MySQLError \<and>
   events (snd (register1 env_execute_fault
                  (post [(''username'', ''bob''), (''email'', ''bob@x.com''), (''password'', ''pw2'')])
                  world_alice)) =
     [Connect 0, CursorOpen,
      Execute insert_user_sql [StrV ''bob'', StrV ''bob@x.com'', StrV ''pbkdf2:sha256$pw2''],
      CursorClose, ConnectionClose] \<and>
   fst (dashboard env_execute_fault world_alice_in) = Redirect ''index'' \<and>
   events (snd (dashboard env_execute_fault world_alice_in)) =
     [Connect 0, Print ConnectedMsg, CursorOpen, Execute select_profile_sql [IntV 1],
      Print DatabaseErrorMsg, CursorClose, ConnectionClose]"
proof -
  have e: "mysql_connect env_execute_fault 0 = Connected" "\<not> cursor_raises env_execute_fault"
    "execute_raises env_execute_fault" "is_connected env_execute_fault"
    "generate_password_hash env_execute_fault = hash_stub"
    by (simp_all add: env_execute_fault_def env_ok_def)
  have c: "get_db_connection_events env_execute_fault 5 5 = (Some 0, [Connect 0, Print ConnectedMsg])"
    by (simp add: get_db_connection_events_def connect_loop.simps e)
  have c1: "get_db_connection1_events env_execute_fault = (Inr 0, [Connect 0])"
    by (simp add: get_db_connection1_events_def e)
  have w: "session world_alice_in ''user_id'' = Some (IntV 1)" "events world_alice_in = []"
    "events world_alice = []"
    by (simp_all add: world_alice_in_def world_alice_def world_empty_def)
  have d1: "dashboard1 env_execute_fault world_alice_in =
      (Propagated MySQLError,
       emit [Execute select_profile_sql [IntV 1]] (emit [CursorOpen] (emit [Connect 0] world_alice_in)))"
    by (simp add: dashboard1_def get_db_connection1_split c1 e w Let_def)
  have l1: "login1 env_execute_fault (post [(''username'', ''alice''), (''password'', ''pw1'')])
          world_alice =
      (Propagated MySQLError,
       emit [Execute select_by_username_sql [StrV ''alice'']]
         (emit [CursorOpen] (emit [Connect 0] world_alice)))"
    by (simp add: login1_def post_def get_db_connection1_split c1 e Let_def)
  have r1: "register1 env_execute_fault
          (post [(''username'', ''bob''), (''email'', ''bob@x.com''), (''password'', ''pw2'')])
          world_alice =
      (Propagated MySQLError,
       emit [CursorClose, ConnectionClose]
         (emit [Execute insert_user_sql [StrV ''bob'', StrV ''bob@x.com'', StrV ''pbkdf2:sha256$pw2'']]
            (emit [CursorOpen] (emit [Connect 0] world_alice))))"
    by (simp add: register1_def post_def get_db_connection1_split c1 e Let_def
        register1_try_def register1_except_def finally_close1_def hash_stub_def)
  have d: "dashboard env_execute_fault world_alice_in =
      (Redirect ''index'',
       emit [CursorClose, ConnectionClose]
         (flash ''An error occurred. Please try again.'' ''danger''
            (emit [Print DatabaseErrorMsg]
               (emit [Execute select_profile_sql [IntV 1]]
                  (emit [CursorOpen] (emit [Connect 0, Print ConnectedMsg] world_alice_in))))))"
    by (simp add: dashboard_def get_db_connection_split c e w Let_def
        dashboard_try_def dashboard_except_def finally_close_def)
  show ?thesis
    unfolding d1 l1 r1 d by (simp add: w)
qed

section \<open>Registration\<close>

text \<open>
  Claim C7, as it holds on the code. In \<^verbatim>\<open>app.py\<close>, a registration submission that gets no
  connection after the retries is answered with the registration form and the message
  that the connection failed and to try again later; one whose \<^verbatim>\<open>execute()\<close> or \<^verbatim>\<open>commit()\<close>
  raises a connector error other than a uniqueness violation is answered with the
  registration form and the message to try again. In both cases the table is unchanged,
  and no run of \<^verbatim>\<open>register\<close> in \<^verbatim>\<open>app.py\<close> lets a connector error through. Registration never
  changes the session, in either variant. In \<^verbatim>\<open>app1.py\<close>, which catches \<^verbatim>\<open>IntegrityError\<close>
  only, both faults leave \<^verbatim>\<open>register\<close> as the connector's exception, with the table
  unchanged.
\<close>

theorem register_faults:
  "(register_submission rq un em pw \<and> fst (get_db_connection_events e 5 5) = None \<longrightarrow>
      fst (register e rq w) = Render ''register.html'' NoData \<and>
      new_flashes w (snd (register e rq w)) =
        [(''Database connection failed. Please try again later.'', ''danger'')] \<and>
      users (snd (register e rq w)) = users w) \<and>
   (register_submission rq un em pw \<and> fst (get_db_connection_events e 5 5) \<noteq> None \<and>
    store_error e un em w \<longrightarrow>
      fst (register e rq w) = Render ''register.html'' NoData \<and>
      new_flashes w (snd (register e rq w)) =
        [(''An error occurred. Please try again.'', ''danger'')] \<and>
      users (snd (register e rq w)) = users w) \<and>
   fst (register e rq w) \<noteq> Propagated MySQLError \<and>
   fst (register e rq w) \<noteq> Propagated IntegrityError \<and>
   session (snd (register e rq w)) = session w \<and>
   session (snd (register1 e rq w)) = session w \<and>
   (register_submission rq un em pw \<and> mysql_connect e 0 = ConnectFails \<longrightarrow>
      fst (register1 e rq w) = Propagated MySQLError \<and>
      new_flashes w (snd (register1 e rq w)) = [] \<and>
      users (snd (register1 e rq w)) = users w) \<and>
   (register_submission rq un em pw \<and> mysql_connect e 0 \<noteq> ConnectFails \<and>
    store_error e un em w \<longrightarrow>
      fst (register1 e rq w) = Propagated MySQLError \<and>
      new_flashes w (snd (register1 e rq w)) = [] \<and>
      users (snd (register1 e rq w)) = users w)"
proof (intro conjI impI)
  assume a: "register_submission rq un em pw \<and> fst (get_db_connection_events e 5 5) = None"
  then have r: "register e rq w =
     (Render ''register.html'' NoData,
      flash ''Database connection failed. Please try again later.'' ''danger''
        (emit (snd (get_db_connection_events e 5 5)) w))"
    using register_unavailable [of rq un em pw e w] by simp
  show "fst (register e rq w) = Render ''register.html'' NoData"
    "new_flashes w (snd (register e rq w)) =
        [(''Database connection failed. Please try again later.'', ''danger'')]"
    "users (snd (register e rq w)) = users w"
    by (simp_all add: r)
next
  assume a: "register_submission rq un em pw \<and> fst (get_db_connection_events e 5 5) \<noteq> None \<and>
    store_error e un em w"
  then show "fst (register e rq w) = Render ''register.html'' NoData"
    "new_flashes w (snd (register e rq w)) = [(''An error occurred. Please try again.'', ''danger'')]"
    "users (snd (register e rq w)) = users w"
    using register_store_error [of rq un em pw e w] by simp_all
next
  show "fst (register e rq w) \<noteq> Propagated MySQLError"
    "fst (register e rq w) \<noteq> Propagated IntegrityError"
    by (rule register_no_raw_error)+
next
  show "session (snd (register e rq w)) = session w" by (rule register_session_kept)
next
  show "session (snd (register1 e rq w)) = session w" by (rule register1_session_kept)
next
  assume a: "register_submission rq un em pw \<and> mysql_connect e 0 = ConnectFails"
  then have r: "register1 e rq w = (Propagated MySQLError, emit [Connect 0] w)"
    using register1_unavailable [of rq un em pw e w] by simp
  show "fst (register1 e rq w) = Propagated MySQLError"
    "new_flashes w (snd (register1 e rq w)) = []"
    "users (snd (register1 e rq w)) = users w"
    by (simp_all add: r new_flashes_def)
next
  assume a: "register_submission rq un em pw \<and> mysql_connect e 0 \<noteq> ConnectFails \<and>
    store_error e un em w"
  then show "fst (register1 e rq w) = Propagated MySQLError"
    "new_flashes w (snd (register1 e rq w)) = []"
    "users (snd (register1 e rq w)) = users w"
    using register1_store_error [of rq un em pw e w] by (simp_all add: new_flashes_def)
qed

theorem register_faults_witness:
  "fst (register env_down
          (post [(''username'', ''bob''), (''email'', ''bob@x.com''), (''password'', ''pw2'')])
          world_alice) = Render ''register.html'' NoData \<and>
   new_flashes world_alice
     (snd (register env_down
             (post [(''username'', ''bob''), (''email'', ''bob@x.com''), (''password'', ''pw2'')])
             world_alice)) =
     [(''Database connection failed. Please try again later.'', ''danger'')] \<and>
   fst (register env_execute_fault
          (post [(''username'', ''bob''), (''email'', ''bob@x.com''), (''password'', ''pw2'')])
          world_alice) = Render ''register.html'' NoData \<and>
   new_flashes world_alice
     (snd (register env_execute_fault
             (post [(''username'', ''bob''), (''email'', ''bob@x.com''), (''password'', ''pw2'')])
             world_alice)) =
     [(''An error occurred. Please try again.'', ''danger'')] \<and>
   users (snd (register env_execute_fault
             (post [(''username'', ''bob''), (''email'', ''bob@x.com''), (''password'', ''pw2'')])
             world_alice)) = [alice] \<and>
   fst (register1 env_down
          (post [(''username'', ''bob''), (''email'', ''bob@x.com''), (''password'', ''pw2'')])
          world_alice) = Propagated MySQLError \<and>
   fst (register1 env_execute_fault
          (post [(''username'', ''bob''), (''email'', ''bob@x.com''), (''password'', ''pw2'')])
          world_alice) = Propagated MySQLError"
proof -
  let ?rq = "post [(''username'', ''bob''), (''email'', ''bob@x.com''), (''password'', ''pw2'')]"
  have s: "register_submission ?rq ''bob'' ''bob@x.com'' ''pw2''"
    by (simp add: register_submission_def post_def)
  have d: "fst (get_db_connection_events env_down 5 5) = None"
    by (simp add: env_down_unavailable)
  have d': "mysql_connect env_down 0 = ConnectFails"
    by (simp add: env_down_def)
  have f: "fst (get_db_connection_events env_execute_fault 5 5) \<noteq> None"
    "mysql_connect env_execute_fault 0 \<noteq> ConnectFails"
    "store_error env_execute_fault ''bob'' ''bob@x.com'' world_alice"
    by (simp_all add: env_execute_fault_fields store_error_def)
  have u: "users world_alice = [alice]"
    by (simp add: world_alice_def world_empty_def)
  note t = register_faults [of ?rq "''bob''" "''bob@x.com''" "''pw2''" env_down world_alice]
  note x = register_faults [of ?rq "''bob''" "''bob@x.com''" "''pw2''" env_execute_fault world_alice]
  from t s d d' have 1: "fst (register env_down ?rq world_alice) = Render ''register.html'' NoData"
    and 2: "new_flashes world_alice (snd (register env_down ?rq world_alice)) =
     [(''Database connection failed. Please try again later.'', ''danger'')]"
    and 6: "fst (register1 env_down ?rq world_alice) = Propagated MySQLError"
    by blast+
  from x s f have 3: "fst (register env_execute_fault ?rq world_alice) = Render ''register.html'' NoData"
    and 4: "new_flashes world_alice (snd (register env_execute_fault ?rq world_alice)) =
     [(''An error occurred. Please try again.'', ''danger'')]"
    and 5: "users (snd (register env_execute_fault ?rq world_alice)) = users world_alice"
    and 7: "fst (register1 env_execute_fault ?rq world_alice) = Propagated MySQLError"
    by blast+
  from 1 2 3 4 5 6 7 show ?thesis unfolding u by blast
qed

text \<open>
  Claim C7 as stated fails on \<^verbatim>\<open>app1.py\<close>: with the store unreachable, and with the store
  reachable and \<^verbatim>\<open>execute()\<close> raising, its \<^verbatim>\<open>register\<close> ends with the connector's exception
  and flashes nothing.
\<close>

theorem register1_propagates_counterexample:
  "register1 env_down
     (post [(''username'', ''bob''), (''email'', ''bob@x.com''), (''password'', ''pw2'')])
     world_alice = (Propagated MySQLError, emit [Connect 0] world_alice) \<and>
   fst (register1 env_execute_fault
          (post [(''username'', ''bob''), (''email'', ''bob@x.com''), (''password'', ''pw2'')])
          world_alice) = Propagated MySQLError \<and>
   flashes (snd (register1 env_execute_fault
          (post [(''username'', ''bob''), (''email'', ''bob@x.com''), (''password'', ''pw2'')])
          world_alice)) = []"
proof -
  let ?rq = "post [(''username'', ''bob''), (''email'', ''bob@x.com''), (''password'', ''pw2'')]"
  have s: "register_submission ?rq ''bob'' ''bob@x.com'' ''pw2''"
    by (simp add: register_submission_def post_def)
  have d: "mysql_connect env_down 0 = ConnectFails"
    by (simp add: env_down_def)
  have f: "mysql_connect env_execute_fault 0 \<noteq> ConnectFails"
    "store_error env_execute_fault ''bob'' ''bob@x.com'' world_alice"
    by (simp_all add: env_execute_fault_fields store_error_def)
  have w: "flashes world_alice = []"
    by (simp add: world_alice_def world_empty_def)
  show ?thesis
    using register1_unavailable [OF s d, of world_alice]
      register1_store_error [OF s f, of ] w
    by simp
qed

section \<open>Statement texts\<close>

text \<open>
  Claim C8, as it holds on the code. Whatever the request, the session, the table and the
  behaviour of the store, a run of \<^verbatim>\<open>register\<close>, \<^verbatim>\<open>login\<close> or \<^verbatim>\<open>dashboard\<close>, in either
  variant, sends at most one statement, and its text is a fixed string with \<^verbatim>\<open>%s\<close>
  placeholders: the values of the form and of the session travel as parameters only.
  \<^verbatim>\<open>init_db\<close> of \<^verbatim>\<open>app1.py\<close> sends statements without parameters; their texts are
  \<^verbatim>\<open>CREATE DATABASE IF NOT EXISTS\<close> and \<^verbatim>\<open>USE\<close>, each followed by the configured database
  name, and the fixed \<^verbatim>\<open>CREATE TABLE\<close> text, so they depend on no value but that name.
\<close>

theorem statements_parameterized:
  "(statements (new_events w (snd (register e rq w))) = [] \<or>
    statements (new_events w (snd (register e rq w))) =
      [''INSERT INTO users (username, email, password) VALUES (%s, %s, %s)'']) \<and>
   (statements (new_events w (snd (register1 e rq w))) = [] \<or>
    statements (new_events w (snd (register1 e rq w))) =
      [''INSERT INTO users (username, email, password) VALUES (%s, %s, %s)'']) \<and>
   (statements (new_events w (snd (login e rq w))) = [] \<or>
    statements (new_events w (snd (login e rq w))) = [''SELECT * FROM users WHERE email = %s'']) \<and>
   (statements (new_events w (snd (login1 e rq w))) = [] \<or>
    statements (new_events w (snd (login1 e rq w))) =
      [''SELECT * FROM users WHERE username = %s'']) \<and>
   (statements (new_events w (snd (dashboard e w))) = [] \<or>
    statements (new_events w (snd (dashboard e w))) =
      [''SELECT id, username, email, created_at FROM users WHERE id = %s'']) \<and>
   (statements (new_events w (snd (dashboard1 e w))) = [] \<or>
    statements (new_events w (snd (dashboard1 e w))) =
      [''SELECT id, username, email, created_at FROM users WHERE id = %s'']) \<and>
   new_events w (snd (index w)) = [] \<and> new_events w (snd (index1 w)) = [] \<and>
   new_events w (snd (logout w)) = [] \<and> new_events w (snd (logout1 w)) = [] \<and>
   set (statements (snd (init_db e cfg))) \<subseteq>
     {''CREATE DATABASE IF NOT EXISTS '' @ cfg_database cfg, ''USE '' @ cfg_database cfg,
      create_table_sql}"
proof (intro conjI)
  obtain evs where "events (snd (register e rq w)) = events w @ evs"
    "statements evs = [] \<or> statements evs = [insert_user_sql]"
    using register_events [of e rq w] by blast
  then show "statements (new_events w (snd (register e rq w))) = [] \<or>
    statements (new_events w (snd (register e rq w))) =
      [''INSERT INTO users (username, email, password) VALUES (%s, %s, %s)'']"
    by (simp add: insert_user_sql_def)
next
  obtain evs where "events (snd (register1 e rq w)) = events w @ evs"
    "statements evs = [] \<or> statements evs = [insert_user_sql]"
    using register1_events [of e rq w] by blast
  then show "statements (new_events w (snd (register1 e rq w))) = [] \<or>
    statements (new_events w (snd (register1 e rq w))) =
      [''INSERT INTO users (username, email, password) VALUES (%s, %s, %s)'']"
    by (simp add: insert_user_sql_def)
next
  obtain evs where "events (snd (login e rq w)) = events w @ evs"
    "statements evs = [] \<or> statements evs = [select_by_email_sql]"
    using login_events [of e rq w] by blast
  then show "statements (new_events w (snd (login e rq w))) = [] \<or>
    statements (new_events w (snd (login e rq w))) = [''SELECT * FROM users WHERE email = %s'']"
    by (simp add: select_by_email_sql_def)
next
  obtain evs where "events (snd (login1 e rq w)) = events w @ evs"
    "statements evs = [] \<or> statements evs = [select_by_username_sql]"
    using login1_events [of e rq w] by blast
  then show "statements (new_events w (snd (login1 e rq w))) = [] \<or>
    statements (new_events w (snd (login1 e rq w))) =
      [''SELECT * FROM users WHERE username = %s'']"
    by (simp add: select_by_username_sql_def)
next
  obtain evs where "events (snd (dashboard e w)) = events w @ evs"
    "statements evs = [] \<or> statements evs = [select_profile_sql]"
    using dashboard_events [of e w] by blast
  then show "statements (new_events w (snd (dashboard e w))) = [] \<or>
    statements (new_events w (snd (dashboard e w))) =
      [''SELECT id, username, email, created_at FROM users WHERE id = %s'']"
    by (simp add: select_profile_sql_def)
next
  obtain evs where "events (snd (dashboard1 e w)) = events w @ evs"
    "statements evs = [] \<or> statements evs = [select_profile_sql]"
    using dashboard1_events [of e w] by blast
  then show "statements (new_events w (snd (dashboard1 e w))) = [] \<or>
    statements (new_events w (snd (dashboard1 e w))) =
      [''SELECT id, username, email, created_at FROM users WHERE id = %s'']"
    by (simp add: select_profile_sql_def)
next
  show "new_events w (snd (index w)) = []"
    by (simp add: index_def new_events_def split: option.splits)
next
  show "new_events w (snd (index1 w)) = []"
    by (simp add: index1_def new_events_def split: option.splits)
next
  show "new_events w (snd (logout w)) = []"
    by (simp add: logout_def new_events_def)
next
  show "new_events w (snd (logout1 w)) = []"
    by (simp add: logout1_def new_events_def)
next
  show "set (statements (snd (init_db e cfg))) \<subseteq>
     {''CREATE DATABASE IF NOT EXISTS '' @ cfg_database cfg, ''USE '' @ cfg_database cfg,
      create_table_sql}"
    by (simp add: init_db_def Let_def split: connect_outcome.splits)
qed

text \<open>
  Claim C8 as stated fails on \<^verbatim>\<open>init_db\<close> of \<^verbatim>\<open>app1.py\<close>: the texts of its first two
  statements are f-strings over \<^verbatim>\<open>db_config['database']\<close>, so another configured name gives
  other statement texts.
\<close>

theorem init_db_interpolates_counterexample:
  "statements (snd (init_db env_ok db_config)) =
     [''CREATE DATABASE IF NOT EXISTS flask_auth_db'', ''USE flask_auth_db'', create_table_sql] \<and>
   statements (snd (init_db env_ok (db_config\<lparr>cfg_database := ''other_db''\<rparr>))) =
     [''CREATE DATABASE IF NOT EXISTS other_db'', ''USE other_db'', create_table_sql]"
  by (simp add: init_db_def env_ok_def db_config_def Let_def)

section \<open>The two variants side by side\<close>




end
